theory Spec2Isabelle
  imports Main
begin

section \<open>Values, errors and the outside world\<close>

text \<open>
  The values that \<open>json.loads\<close> returns. \<open>JNull\<close> is Python's \<open>None\<close>; an object is
  the parsed \<open>dict\<close>, kept as an association list of its keys, each once, in insertion
  order. The code treats every number alike, so one constructor stands for them.
\<close>

datatype json =
    JNull
  | JBool bool
  | JNum int
  | JStr string
  | JArr "json list"
  | JObj "(string \<times> json) list"

text \<open>
  The exceptions the program can raise. \<open>ConnectionError\<close> is the class declared in the
  source (it carries \<open>msg\<close>, which may be \<open>None\<close> when it is taken from
  \<open>e.strerror\<close>); the others are Python's own. \<open>OSError\<close> carries the name of the
  file that could not be opened, and \<open>OtherError\<close> the name of the class of an
  exception that the transport raises and that is neither \<open>URLError\<close> nor
  \<open>ValueError\<close> (\<open>RemoteDisconnected\<close>, \<open>TimeoutError\<close>, \<open>IncompleteRead\<close>).
\<close>

datatype error =
    ConnectionError "string option"
  | TypeError
  | KeyError string
  | NameError string
  | UnboundLocalError string
  | ArgumentError string
  | OSError string
  | OtherError string

text \<open>
  A request is the \<open>params\<close> dict that is url-encoded into the query string, in
  insertion order. What \<open>urllib.request.urlopen\<close> does with it is the outside world's
  answer: \<open>urlopen\<close> raises \<open>URLError\<close> (with its \<open>strerror\<close>); or \<open>urlopen\<close> or
  the reading of the response raises an exception of another class, which is not a
  \<open>ValueError\<close> either (\<open>Raises\<close>, with the name of the class); or a body is
  delivered, which either is JSON text (\<open>Some\<close> of the parsed value) or is not
  (\<open>None\<close>: \<open>json.loads\<close> or the UTF-8 decoding raises \<open>ValueError\<close>).
\<close>

type_synonym request = "(string \<times> json) list"

datatype http_outcome =
    URLError "string option"
  | Raises string
  | Body "json option"

text \<open>
  The state a run changes: the requests issued so far (oldest first), the files of the
  working directory (name to text), and how many random UUIDs have been drawn. A name
  has a text when \<open>open\<close> can read the file and its bytes decode, and the text is the
  content as written to it.
\<close>

record world =
  calls :: "request list"
  files :: "string \<rightharpoonup> string"
  drawn :: nat

text \<open>
  What a run only reads: the provider (its answer may depend on the requests made before),
  \<open>uuid.uuid5(uuid.NAMESPACE_URL, _)\<close> (a library function of the name), the source of
  \<open>uuid.uuid4()\<close> values (the \<open>n\<close>-th draw), what connecting the UDP socket yields
  (\<open>Inl\<close> the \<open>strerror\<close> of \<open>socket.error\<close>, or \<open>Inr\<close> the local address), and
  which files can be opened for writing or appending (\<open>open\<close> raises \<open>OSError\<close> for
  the others: a missing or read-only directory, a name with a \<open>/\<close> in it).
\<close>

record env =
  srv :: "request list \<Rightarrow> request \<Rightarrow> http_outcome"
  uuid5_url :: "string \<Rightarrow> string"
  uuid4 :: "nat \<Rightarrow> string"
  route :: "string option + string"
  writable :: "string \<Rightarrow> bool"

type_synonym 'a io = "world \<Rightarrow> (error + 'a) \<times> world"

definition ret :: "'a \<Rightarrow> 'a io" where
  "ret x w = (Inr x, w)"

definition raise :: "error \<Rightarrow> 'a io" where
  "raise e w = (Inl e, w)"

definition bnd :: "'a io \<Rightarrow> ('a \<Rightarrow> 'b io) \<Rightarrow> 'b io" where
  "bnd m f w = (case m w of (Inl e, w') \<Rightarrow> (Inl e, w') | (Inr x, w') \<Rightarrow> f x w')"

section \<open>Python operations on parsed JSON\<close>

text \<open>\<open>x[k]\<close> with a string \<open>k\<close>: only a dict can be indexed by a string.\<close>

fun subscript :: "json \<Rightarrow> string \<Rightarrow> error + json" where
  "subscript (JObj kvs) k = (case map_of kvs k of None \<Rightarrow> Inl (KeyError k) | Some v \<Rightarrow> Inr v)"
| "subscript _ k = Inl TypeError"

text \<open>\<open>x == s\<close> for a Python string \<open>s\<close>: only an equal string is equal to it.\<close>

fun eq_str :: "json \<Rightarrow> string \<Rightarrow> bool" where
  "eq_str (JStr t) s = (t = s)"
| "eq_str _ s = False"

text \<open>
  Iterating a value: a list gives its elements, a dict its keys, a string its characters;
  anything else raises \<open>TypeError\<close>.
\<close>

fun iterate :: "json \<Rightarrow> error + json list" where
  "iterate (JArr xs) = Inr xs"
| "iterate (JObj kvs) = Inr (map (\<lambda>kv. JStr (fst kv)) kvs)"
| "iterate (JStr s) = Inr (map (\<lambda>c. JStr [c]) s)"
| "iterate _ = Inl TypeError"

text \<open>\<open>list(filter(p, xs))\<close> where \<open>p\<close> may raise: the first exception ends it.\<close>

fun filter_raising :: "(json \<Rightarrow> error + bool) \<Rightarrow> json list \<Rightarrow> error + json list" where
  "filter_raising p [] = Inr []"
| "filter_raising p (x # xs) =
     (case p x of
        Inl e \<Rightarrow> Inl e
      | Inr b \<Rightarrow>
          (case filter_raising p xs of
             Inl e \<Rightarrow> Inl e
           | Inr ys \<Rightarrow> Inr (if b then x # ys else ys)))"

text \<open>\<open>lambda x: x[k] == v\<close>\<close>

definition field_is :: "string \<Rightarrow> string \<Rightarrow> json \<Rightarrow> error + bool" where
  "field_is k v x = (case subscript x k of Inl e \<Rightarrow> Inl e | Inr y \<Rightarrow> Inr (eq_str y v))"

text \<open>
  One optional filter of \<open>dyndns_list\<close>:
  \<open>if v is not None: r = list(filter((lambda x: x[k] == v), r))\<close>.
\<close>

definition apply_filter :: "string \<Rightarrow> string option \<Rightarrow> json \<Rightarrow> error + json" where
  "apply_filter k v r =
     (case v of
        None \<Rightarrow> Inr r
      | Some s \<Rightarrow>
          (case iterate r of
             Inl e \<Rightarrow> Inl e
           | Inr xs \<Rightarrow>
               (case filter_raising (field_is k s) xs of
                  Inl e \<Rightarrow> Inl e
                | Inr ys \<Rightarrow> Inr (JArr ys))))"

section \<open>The API client\<close>

text \<open>
  \<open>request_json\<close>: \<open>URLError\<close> becomes \<open>ConnectionError(e.strerror)\<close>; any other
  exception of the transport leaves the function as it is; a body that does not parse
  makes the function return \<open>None\<close>. The request is recorded in \<open>calls\<close> whatever its
  outcome.
\<close>

definition request_json :: "env \<Rightarrow> request \<Rightarrow> json io" where
  "request_json ev rq w =
     (let w' = w\<lparr>calls := calls w @ [rq]\<rparr> in
      case srv ev (calls w) rq of
        URLError m \<Rightarrow> (Inl (ConnectionError m), w')
      | Raises n \<Rightarrow> (Inl (OtherError n), w')
      | Body None \<Rightarrow> (Inr JNull, w')
      | Body (Some x) \<Rightarrow> (Inr x, w'))"

text \<open>
  \<open>if result['result'] == 'success': return True else: return False\<close>. The
  \<open>except urllib.error.URLError\<close> around the call of \<open>request_json\<close> in the three
  operations never fires: \<open>request_json\<close> has already turned \<open>URLError\<close> into the
  source's \<open>ConnectionError\<close>, which is not a \<open>URLError\<close>, and what else it lets
  through is not one either.
\<close>

definition is_success :: "json \<Rightarrow> error + bool" where
  "is_success result = field_is ''result'' ''success'' result"

definition add_params :: "env \<Rightarrow> string \<Rightarrow> string \<Rightarrow> string \<Rightarrow> string \<Rightarrow> string \<Rightarrow> request" where
  "add_params ev k record type val comment =
     [(''key'', JStr k), (''uuid'', JStr (uuid5_url ev record)),
      (''cmd'', JStr ''dns-add_record''), (''record'', JStr record),
      (''type'', JStr type), (''value'', JStr val), (''format'', JStr ''json'')]
     @ (if comment \<noteq> '''' then [(''comment'', JStr comment)] else [])"

definition dyndns_add :: "env \<Rightarrow> string \<Rightarrow> string \<Rightarrow> string \<Rightarrow> string \<Rightarrow> string \<Rightarrow> bool io" where
  "dyndns_add ev k record type val comment =
     bnd (request_json ev (add_params ev k record type val comment))
       (\<lambda>result. case is_success result of Inl e \<Rightarrow> raise e | Inr b \<Rightarrow> ret b)"

definition rem_params :: "env \<Rightarrow> string \<Rightarrow> string \<Rightarrow> string \<Rightarrow> json \<Rightarrow> request" where
  "rem_params ev k record type val =
     [(''key'', JStr k), (''uuid'', JStr (uuid5_url ev record)),
      (''cmd'', JStr ''dns-remove_record''), (''record'', JStr record),
      (''type'', JStr type), (''value'', val), (''format'', JStr ''json'')]"

definition dyndns_rem :: "env \<Rightarrow> string \<Rightarrow> string \<Rightarrow> string \<Rightarrow> json \<Rightarrow> bool io" where
  "dyndns_rem ev k record type val =
     bnd (request_json ev (rem_params ev k record type val))
       (\<lambda>result. case is_success result of Inl e \<Rightarrow> raise e | Inr b \<Rightarrow> ret b)"

definition list_params :: "string \<Rightarrow> string \<Rightarrow> request" where
  "list_params k nonce =
     [(''key'', JStr k), (''uuid'', JStr nonce),
      (''cmd'', JStr ''dns-list_records''), (''format'', JStr ''json'')]"

text \<open>
  \<open>dyndns_list\<close> draws a \<open>uuid4\<close>, asks for all records and filters them itself, by
  \<open>editable\<close>, then \<open>record\<close>, then \<open>type\<close>. It returns \<open>None\<close> (\<open>JNull\<close>) when the
  provider's \<open>result\<close> is not \<open>'success'\<close>.
\<close>

definition list_result :: "string option \<Rightarrow> string option \<Rightarrow> string option \<Rightarrow> json \<Rightarrow> error + json" where
  "list_result editable record type result =
     (case is_success result of
        Inl e \<Rightarrow> Inl e
      | Inr False \<Rightarrow> Inr JNull
      | Inr True \<Rightarrow>
          (case subscript result ''data'' of
             Inl e \<Rightarrow> Inl e
           | Inr r \<Rightarrow>
               (case apply_filter ''editable'' editable r of
                  Inl e \<Rightarrow> Inl e
                | Inr r1 \<Rightarrow>
                    (case apply_filter ''record'' record r1 of
                       Inl e \<Rightarrow> Inl e
                     | Inr r2 \<Rightarrow> apply_filter ''type'' type r2))))"

definition dyndns_list :: "env \<Rightarrow> string \<Rightarrow> string option \<Rightarrow> string option \<Rightarrow> string option \<Rightarrow> json io" where
  "dyndns_list ev k editable record type w =
     (let rq = list_params k (uuid4 ev (drawn w)) in
      bnd (request_json ev rq)
        (\<lambda>result. case list_result editable record type result of
                     Inl e \<Rightarrow> raise e | Inr r \<Rightarrow> ret r)
        (w\<lparr>drawn := Suc (drawn w)\<rparr>))"

text \<open>
  The loop of \<open>dyndns_clean\<close>:
  \<open>for r in results: dyndns_rem(key=key, record=record, type=type, value=r['value'])\<close>.
  The value \<open>dyndns_rem\<close> returns is dropped; an exception leaves the loop.
\<close>

fun rem_each :: "env \<Rightarrow> string \<Rightarrow> string \<Rightarrow> string \<Rightarrow> json list \<Rightarrow> unit io" where
  "rem_each ev k record type [] w = (Inr (), w)"
| "rem_each ev k record type (r # rs) w =
     (case subscript r ''value'' of
        Inl e \<Rightarrow> (Inl e, w)
      | Inr v \<Rightarrow>
          (case dyndns_rem ev k record type v w of
             (Inl e, w') \<Rightarrow> (Inl e, w')
           | (Inr b, w') \<Rightarrow> rem_each ev k record type rs w'))"

definition dyndns_clean :: "env \<Rightarrow> string \<Rightarrow> string \<Rightarrow> string \<Rightarrow> unit io" where
  "dyndns_clean ev k record type =
     bnd (dyndns_list ev k (Some ''1'') (Some record) (Some type))
       (\<lambda>results.
          if results \<noteq> JNull then
            (case iterate results of
               Inl e \<Rightarrow> raise e
             | Inr rs \<Rightarrow> rem_each ev k record type rs)
          else ret ())"

section \<open>The IP resolver\<close>

text \<open>\<open>'{}'.format(x)\<close> of a value that is a string or \<open>None\<close>.\<close>

definition format_opt :: "string option \<Rightarrow> string" where
  "format_opt x = (case x of None \<Rightarrow> ''None'' | Some s \<Rightarrow> s)"

text \<open>
  \<open>get_current_ip\<close>: \<open>socket.error\<close> becomes \<open>ConnectionError\<close>; the socket is closed
  on both paths and nothing else of the world changes.
\<close>

definition get_current_ip :: "env \<Rightarrow> error + string" where
  "get_current_ip ev =
     (case route ev of
        Inl strerror \<Rightarrow>
          Inl (ConnectionError (Some (''Error connecting to Google. '' @ format_opt strerror @ ''.'')))
      | Inr ip \<Rightarrow> Inr ip)"

section \<open>The logger\<close>

text \<open>
  \<open>Log.__init__\<close> opens the log file for appending when \<open>do_log\<close> is set: that creates
  the file when it does not exist, and raises \<open>OSError\<close> when it cannot be opened.
\<close>

definition Log_init :: "env \<Rightarrow> string \<Rightarrow> bool \<Rightarrow> unit io" where
  "Log_init ev lf do_log w =
     (if do_log then
        (if writable ev lf
         then (Inr (), w\<lparr>files := (files w)(lf \<mapsto> (case files w lf of None \<Rightarrow> [] | Some t \<Rightarrow> t))\<rparr>)
         else (Inl (OSError lf), w))
      else (Inr (), w))"

text \<open>
  A log message is built with \<open>format\<close> from literal text, the \<open>strerror\<close> of the
  exception at hand and \<open>str\<close> of a \<open>ConnectionError\<close>, which is \<open>repr\<close> of its
  \<open>msg\<close>. The pieces are kept as they are: building the message does not raise, and
  no message is ever written.
\<close>

datatype fragment =
    Text string
  | Strerror
  | Repr "string option"

text \<open>
  The positional arguments of a call: an instance of \<open>Log\<close>, or a message.
\<close>

datatype argument =
    Instance
  | Message "fragment list"

text \<open>
  The source declares the method as \<open>def log(msg):\<close>, with one parameter and no \<open>self\<close>.
  Python binds the positional arguments of a call to the parameters: with any number of
  arguments other than one the call raises \<open>TypeError\<close> before the body runs, and with one
  argument the body's \<open>self.do_log\<close> raises \<open>NameError\<close>.
\<close>

definition Log_log :: "argument list \<Rightarrow> unit io" where
  "Log_log args =
     (case args of
        [msg] \<Rightarrow> raise (NameError ''self'')
      | _ \<Rightarrow> raise TypeError)"

text \<open>
  \<open>logfile.log(msg)\<close> is a call of the bound method: the instance is passed as the first
  positional argument and \<open>msg\<close> as the second.
\<close>

definition logfile_log :: "fragment list \<Rightarrow> unit io" where
  "logfile_log msg = Log_log [Instance, Message msg]"

section \<open>The flow of main\<close>

text \<open>The namespace that \<open>parse_args\<close> returns.\<close>

record params =
  key :: string
  hostname :: string
  logfile :: string
  clean :: bool
  hard :: bool

text \<open>
  A local variable of \<open>main\<close> that an \<open>except\<close> branch may leave without a value.
\<close>

datatype 'a local_var = Unbound | Bound 'a

text \<open>\<open>str.isspace\<close> on the characters below 256, and \<open>str.rstrip()\<close>.\<close>

definition isspace :: "char \<Rightarrow> bool" where
  "isspace c = (of_char c \<in> {9, 10, 11, 12, 13, 28, 29, 30, 31, 32, 133, 160 :: nat})"

definition rstrip :: "string \<Rightarrow> string" where
  "rstrip s = rev (dropWhile isspace (rev s))"

text \<open>
  Reading a file opened in text mode translates the line ends: \<open>'\r\n'\<close> and a lone
  \<open>'\r'\<close> are read as \<open>'\n'\<close>. Writing \<open>'\n'\<close> stores it as it is (the line
  separator of POSIX).
\<close>

fun universal_newlines :: "string \<Rightarrow> string" where
  "universal_newlines [] = []"
| "universal_newlines [c] = [if c = CHR 0x0D then CHR 0x0A else c]"
| "universal_newlines (c # d # cs) =
     (if c = CHR 0x0D then
        (if d = CHR 0x0A then CHR 0x0A # universal_newlines cs
         else CHR 0x0A # universal_newlines (d # cs))
      else c # universal_newlines (d # cs))"

definition ip_cachename :: "params \<Rightarrow> string" where
  "ip_cachename p = ''dyndns-'' @ hostname p @ ''.txt''"

text \<open>
  \<open>os.remove(ip_cachename)\<close>: the module never imports \<open>os\<close>, so evaluating the name
  raises \<open>NameError\<close>, which the \<open>except OSError\<close> around it does not catch.
\<close>

definition os_remove :: "string \<Rightarrow> unit io" where
  "os_remove name = raise (NameError ''os'')"

text \<open>The branch \<open>if params.clean:\<close>, up to its \<open>return 0\<close>.\<close>

definition clean_mode :: "env \<Rightarrow> params \<Rightarrow> int io" where
  "clean_mode ev p =
     bnd (dyndns_clean ev (key p) (hostname p) ''A'') (\<lambda>_.
     bnd (logfile_log [Text (hostname p), Text '': Removed A record(s).'']) (\<lambda>_.
     bnd (os_remove (ip_cachename p)) (\<lambda>_.
     bnd (logfile_log [Text (hostname p), Text '': Removed cache file '',
            Text (ip_cachename p), Text ''.'']) (\<lambda>_.
     ret 0))))"

text \<open>
  Reading the cache: \<open>open\<close> raises \<open>IOError\<close> when the file cannot be read; the handler
  sets \<open>cached_ip = None\<close> and then logs a warning. Otherwise \<open>cached_ip\<close> is the text
  read from the file without its trailing whitespace.
\<close>

definition read_ip_cache :: "params \<Rightarrow> string option io" where
  "read_ip_cache p w =
     (case files w (ip_cachename p) of
        None \<Rightarrow>
          bnd (logfile_log [Text (hostname p), Text '': Warning, couldn'', Text [CHR 0x27],
                 Text ''t read IP cache file '', Text (ip_cachename p), Text ''. '', Strerror,
                 Text ''.''])
            (\<lambda>_. ret None) w
      | Some t \<Rightarrow> (Inr (Some (rstrip (universal_newlines t))), w))"

text \<open>
  Resolving the address: the handler of \<open>ConnectionError\<close> logs and assigns nothing, so
  \<open>current_ip\<close> stays without a value there.
\<close>

definition resolve_current_ip :: "env \<Rightarrow> params \<Rightarrow> string local_var io" where
  "resolve_current_ip ev p =
     (case get_current_ip ev of
        Inl (ConnectionError m) \<Rightarrow>
          bnd (logfile_log [Text (hostname p), Text '': '', Repr m]) (\<lambda>_. ret Unbound)
      | Inl e \<Rightarrow> raise e
      | Inr ip \<Rightarrow> ret (Bound ip))"

text \<open>
  The condition of the update, with Python's short-circuit evaluation:
  \<open>current_ip is not None and (cached_ip is None or cached_ip != current_ip or params.hard)\<close>.
  \<open>None\<close> of the option type is Python's \<open>None\<close>.
\<close>

definition update_decision :: "string option \<Rightarrow> string option \<Rightarrow> bool \<Rightarrow> bool" where
  "update_decision cached_ip current_ip force =
     (if current_ip = None then False
      else if cached_ip = None then True
      else if cached_ip \<noteq> current_ip then True
      else force)"

text \<open>
  \<open>with open(ip_cachename, 'w') as ip_cache: ip_cache.write(current_ip + '\n')\<close>:
  \<open>OSError\<close> when the file cannot be opened for writing.
\<close>

definition write_ip_cache :: "env \<Rightarrow> params \<Rightarrow> string \<Rightarrow> unit io" where
  "write_ip_cache ev p current_ip w =
     (if writable ev (ip_cachename p)
      then (Inr (), w\<lparr>files := (files w)(ip_cachename p \<mapsto> current_ip @ [CHR 0x0A])\<rparr>)
      else (Inl (OSError (ip_cachename p)), w))"

text \<open>
  The Add and Persist steps: \<open>dyndns_add\<close> is called as a statement, its result is not
  looked at, and the cache is written next.
\<close>

definition add_and_persist :: "env \<Rightarrow> params \<Rightarrow> string \<Rightarrow> unit io" where
  "add_and_persist ev p current_ip =
     bnd (dyndns_add ev (key p) (hostname p) ''A'' current_ip []) (\<lambda>_.
     write_ip_cache ev p current_ip)"

text \<open>The body of the \<open>if\<close> that the update decision guards.\<close>

definition update_steps :: "env \<Rightarrow> params \<Rightarrow> string \<Rightarrow> unit io" where
  "update_steps ev p current_ip =
     bnd (dyndns_clean ev (key p) (hostname p) ''A'') (\<lambda>_.
     bnd (logfile_log [Text (hostname p), Text '': Removed A record(s).'']) (\<lambda>_.
     bnd (add_and_persist ev p current_ip) (\<lambda>_.
     logfile_log [Text (hostname p), Text '': Set A record to '', Text current_ip])))"

text \<open>
  The flow of \<open>main\<close> once the arguments are parsed: the \<open>with Log(...)\<close> block and the
  final \<open>return 0\<close>. An exception of \<open>Log(...)\<close> itself leaves \<open>main\<close> before the
  block is entered; \<open>Log.__exit__\<close> closes the log file and returns \<open>None\<close>, so an
  exception raised in the block leaves \<open>main\<close> too.
\<close>

definition main_flow :: "env \<Rightarrow> params \<Rightarrow> int io" where
  "main_flow ev p =
     bnd (Log_init ev (logfile p) (logfile p \<noteq> [])) (\<lambda>_.
       if clean p then clean_mode ev p
       else
         bnd (read_ip_cache p) (\<lambda>cached_ip.
         bnd (resolve_current_ip ev p) (\<lambda>current_ip.
           case current_ip of
             Unbound \<Rightarrow> raise (UnboundLocalError ''current_ip'')
           | Bound ip \<Rightarrow>
               if update_decision cached_ip (Some ip) (hard p)
               then bnd (update_steps ev p ip) (\<lambda>_. ret 0)
               else ret 0)))"

text \<open>
  The construction of the argument parser. \<open>ArgumentParser\<close> registers \<open>-h\<close> and
  \<open>--help\<close> itself; \<open>add_argument\<close> raises \<open>ArgumentError\<close> when one of its option
  strings is registered already (the default conflict handler). Positional arguments
  register no option string.
\<close>

definition add_argument :: "string list \<Rightarrow> string list \<Rightarrow> error + string list" where
  "add_argument names registered =
     (case filter (\<lambda>n. n \<in> set registered) (filter (\<lambda>n. take 1 n = ''-'') names) of
        [] \<Rightarrow> Inr (registered @ filter (\<lambda>n. take 1 n = ''-'') names)
      | n # _ \<Rightarrow> Inl (ArgumentError (''conflicting option string: '' @ n)))"

fun add_arguments :: "string list list \<Rightarrow> string list \<Rightarrow> error + string list" where
  "add_arguments [] registered = Inr registered"
| "add_arguments (names # rest) registered =
     (case add_argument names registered of
        Inl e \<Rightarrow> Inl e
      | Inr registered' \<Rightarrow> add_arguments rest registered')"

definition argparser :: "error + string list" where
  "argparser =
     add_arguments
       [[''key''], [''hostname''], [''-l'', ''--log''], [''-c'', ''--clean''], [''-h'', ''--hard'']]
       [''-h'', ''--help'']"

text \<open>
  \<open>main\<close>: the parser is built, \<open>parse_args\<close> (the library's, a parameter here) turns the
  argument list into the namespace, and the flow runs.
\<close>

definition main :: "(string list \<Rightarrow> params) \<Rightarrow> env \<Rightarrow> string list \<Rightarrow> int io" where
  "main parse_args ev args =
     (case argparser of
        Inl e \<Rightarrow> raise e
      | Inr registered \<Rightarrow> main_flow ev (parse_args args))"

section \<open>Vocabulary of the properties\<close>

text \<open>
  A record of the provider is a JSON object; \<open>field r k\<close> is its field \<open>k\<close>, if it has
  one. A record is well formed when it has the four fields the code reads. The provider
  sends \<open>editable\<close> as the string \<open>'0'\<close> or \<open>'1'\<close>, and the code compares it with
  \<open>'1'\<close>.
\<close>

definition field :: "json \<Rightarrow> string \<Rightarrow> json option" where
  "field r k = (case r of JObj kvs \<Rightarrow> map_of kvs k | _ \<Rightarrow> None)"

definition well_formed :: "json \<Rightarrow> bool" where
  "well_formed r =
     (field r ''editable'' \<noteq> None \<and> field r ''record'' \<noteq> None \<and>
      field r ''type'' \<noteq> None \<and> field r ''value'' \<noteq> None)"

definition field_matches :: "string \<Rightarrow> string option \<Rightarrow> json \<Rightarrow> bool" where
  "field_matches k v r = (case v of None \<Rightarrow> True | Some s \<Rightarrow> field r k = Some (JStr s))"

definition wanted :: "string option \<Rightarrow> string option \<Rightarrow> string option \<Rightarrow> json \<Rightarrow> bool" where
  "wanted editable record type r =
     (field_matches ''editable'' editable r \<and> field_matches ''record'' record r \<and>
      field_matches ''type'' type r)"

definition value_of :: "json \<Rightarrow> json" where
  "value_of r = (case field r ''value'' of None \<Rightarrow> JNull | Some v \<Rightarrow> v)"

text \<open>The nonce of a request is its \<open>uuid\<close> parameter.\<close>

definition nonce_of :: "request \<Rightarrow> json option" where
  "nonce_of rq = map_of rq ''uuid''"

text \<open>
  What an add or a remove makes of the outcome of its request: \<open>ConnectionError\<close> for
  \<open>URLError\<close>, any other exception of the transport as it is, \<open>TypeError\<close> for a body
  that is not JSON or is not a JSON object, \<open>KeyError\<close> for an object without a
  \<open>result\<close> field, and otherwise whether \<open>result\<close> is \<open>'success'\<close>.
\<close>

definition response_result :: "http_outcome \<Rightarrow> error + bool" where
  "response_result outcome =
     (case outcome of
        URLError m \<Rightarrow> Inl (ConnectionError m)
      | Raises n \<Rightarrow> Inl (OtherError n)
      | Body None \<Rightarrow> Inl TypeError
      | Body (Some x) \<Rightarrow>
          (case x of
             JObj kvs \<Rightarrow>
               (case map_of kvs ''result'' of
                  None \<Rightarrow> Inl (KeyError ''result'')
                | Some r \<Rightarrow> Inr (r = JStr ''success''))
           | _ \<Rightarrow> Inl TypeError))"

text \<open>
  The removals the Clean step is to request for the matching records \<open>rs\<close>, after the
  requests \<open>h\<close>: one for each record, in order and with its value, up to and including
  the first whose request raises; and how the step ends: with the exception of that
  request, or normally when no request raises.
\<close>

fun removal_requests :: "env \<Rightarrow> string \<Rightarrow> string \<Rightarrow> string \<Rightarrow> request list \<Rightarrow> json list \<Rightarrow> request list" where
  "removal_requests ev k name kind h [] = []"
| "removal_requests ev k name kind h (r # rs) =
     (case response_result (srv ev h (rem_params ev k name kind (value_of r))) of
        Inl e \<Rightarrow> [rem_params ev k name kind (value_of r)]
      | Inr b \<Rightarrow>
          rem_params ev k name kind (value_of r)
          # removal_requests ev k name kind (h @ [rem_params ev k name kind (value_of r)]) rs)"

fun removal_outcome :: "env \<Rightarrow> string \<Rightarrow> string \<Rightarrow> string \<Rightarrow> request list \<Rightarrow> json list \<Rightarrow> error + unit" where
  "removal_outcome ev k name kind h [] = Inr ()"
| "removal_outcome ev k name kind h (r # rs) =
     (case response_result (srv ev h (rem_params ev k name kind (value_of r))) of
        Inl e \<Rightarrow> Inl e
      | Inr b \<Rightarrow>
          removal_outcome ev k name kind (h @ [rem_params ev k name kind (value_of r)]) rs)"

text \<open>
  The addresses pushed to the provider for a host name, read off the requests made so
  far: the values of the add requests for that name that the provider answered with
  success, oldest first. The cache reflects the provider when it has no entry for the
  host name or its entry reads as the address pushed last.
\<close>

definition is_add :: "request \<Rightarrow> bool" where
  "is_add rq = (map_of rq ''cmd'' = Some (JStr ''dns-add_record''))"

fun pushed :: "env \<Rightarrow> string \<Rightarrow> request list \<Rightarrow> request list \<Rightarrow> json option list" where
  "pushed ev host h [] = []"
| "pushed ev host h (rq # rqs) =
     (if is_add rq \<and> map_of rq ''record'' = Some (JStr host)
         \<and> response_result (srv ev h rq) = Inr True
      then [map_of rq ''value''] else [])
     @ pushed ev host (h @ [rq]) rqs"

definition last_pushed :: "env \<Rightarrow> string \<Rightarrow> request list \<Rightarrow> json option" where
  "last_pushed ev host cs = (case rev (pushed ev host [] cs) of [] \<Rightarrow> None | v # vs \<Rightarrow> v)"

definition cache_reflects :: "env \<Rightarrow> params \<Rightarrow> world \<Rightarrow> bool" where
  "cache_reflects ev p w =
     (case files w (ip_cachename p) of
        None \<Rightarrow> True
      | Some t \<Rightarrow>
          last_pushed ev (hostname p) (calls w) = Some (JStr (rstrip (universal_newlines t))))"

section \<open>Sample inputs\<close>

text \<open>
  Providers that always answer success with a given record list, that cannot be reached,
  that answer with text that is not JSON, that refuse every request, that close the
  connection without an answer, and that answer the list request only. The remaining samples are an environment, a set of parameters and a
  world whose only file is the cache of the sample host name.
\<close>

definition provider_ok :: "json list \<Rightarrow> request list \<Rightarrow> request \<Rightarrow> http_outcome" where
  "provider_ok rs h rq = Body (Some (JObj [(''result'', JStr ''success''), (''data'', JArr rs)]))"

definition provider_down :: "request list \<Rightarrow> request \<Rightarrow> http_outcome" where
  "provider_down h rq = URLError None"

definition provider_garbled :: "request list \<Rightarrow> request \<Rightarrow> http_outcome" where
  "provider_garbled h rq = Body None"

definition provider_refuses :: "request list \<Rightarrow> request \<Rightarrow> http_outcome" where
  "provider_refuses h rq = Body (Some (JObj [(''result'', JStr ''error''), (''data'', JStr ''internal_error'')]))"

definition provider_drops :: "request list \<Rightarrow> request \<Rightarrow> http_outcome" where
  "provider_drops h rq = Raises ''RemoteDisconnected''"

definition provider_lists_only :: "json list \<Rightarrow> request list \<Rightarrow> request \<Rightarrow> http_outcome" where
  "provider_lists_only rs h rq =
     (if map_of rq ''cmd'' = Some (JStr ''dns-list_records'') then provider_ok rs h rq
      else URLError None)"

definition a_record :: "string \<Rightarrow> string \<Rightarrow> string \<Rightarrow> string \<Rightarrow> json" where
  "a_record name type val editable =
     JObj [(''record'', JStr name), (''type'', JStr type), (''value'', JStr val),
           (''editable'', JStr editable), (''comment'', JStr [])]"

definition stale_records :: "json list" where
  "stale_records =
     [a_record ''host.example.com'' ''A'' ''203.0.113.5'' ''1'',
      a_record ''host.example.com'' ''A'' ''203.0.113.6'' ''1'']"

definition mixed_records :: "json list" where
  "mixed_records =
     [a_record ''host.example.com'' ''A'' ''203.0.113.5'' ''1'',
      a_record ''host.example.com'' ''A'' ''203.0.113.7'' ''0'',
      a_record ''other.example.com'' ''A'' ''203.0.113.8'' ''1'',
      a_record ''host.example.com'' ''MX'' ''mail.example.com'' ''1'',
      a_record ''host.example.com'' ''A'' ''203.0.113.6'' ''1'']"

definition sample_env :: "(request list \<Rightarrow> request \<Rightarrow> http_outcome) \<Rightarrow> string option + string \<Rightarrow> env" where
  "sample_env provider r =
     \<lparr>srv = provider, uuid5_url = (\<lambda>name. ''uuid5:'' @ name),
      uuid4 = (\<lambda>n. ''uuid4:'' @ replicate n CHR ''i''), route = r,
      writable = (\<lambda>name. True)\<rparr>"

definition sample_params :: "bool \<Rightarrow> bool \<Rightarrow> params" where
  "sample_params c h =
     \<lparr>key = ''KEY'', hostname = ''host.example.com'', logfile = [], clean = c, hard = h\<rparr>"

definition sample_world :: "string option \<Rightarrow> world" where
  "sample_world cached =
     \<lparr>calls = [],
      files = (case cached of None \<Rightarrow> Map.empty
               | Some ip \<Rightarrow> [''dyndns-host.example.com.txt'' \<mapsto> ip @ [CHR 0x0A]]),
      drawn = 0\<rparr>"


section \<open>Facts about the API client\<close>

lemmas io_defs = bnd_def ret_def raise_def

text \<open>
  On well-formed records the filters of \<open>dyndns_list\<close> never raise and select the
  wanted records; the exceptions that come from indexing the response are \<open>TypeError\<close>
  and \<open>KeyError\<close>.
\<close>

lemma eq_str_iff: "eq_str v s \<longleftrightarrow> v = JStr s"
  by (cases v) auto

lemma subscript_field: "field r k = Some v \<Longrightarrow> subscript r k = Inr v"
  by (cases r) (auto simp: field_def)

lemma subscript_error: "subscript r k = Inl e \<Longrightarrow> e = TypeError \<or> e = KeyError k"
  by (cases r) (auto split: option.splits)

lemma field_is_error: "field_is k s r = Inl e \<Longrightarrow> e = TypeError \<or> e = KeyError k"
  by (auto simp: field_is_def split: sum.splits dest: subscript_error)

lemma field_is_field: "field r k = Some v \<Longrightarrow> field_is k s r = Inr (v = JStr s)"
  by (simp add: field_is_def subscript_field eq_str_iff)

lemma filter_raising_total:
  "\<forall>x\<in>set xs. p x = Inr (q x) \<Longrightarrow> filter_raising p xs = Inr (filter q xs)"
  by (induction xs) auto

lemma filter_raising_error:
  "filter_raising p xs = Inl e \<Longrightarrow> \<exists>x\<in>set xs. p x = Inl e"
  by (induction xs) (auto split: sum.splits)

lemma apply_filter_error:
  "apply_filter k v r = Inl e \<Longrightarrow> e = TypeError \<or> e = KeyError k"
proof (cases v)
  case None
  assume "apply_filter k v r = Inl e"
  with None show ?thesis by (simp add: apply_filter_def)
next
  case (Some s)
  assume a: "apply_filter k v r = Inl e"
  show ?thesis
  proof (cases "iterate r")
    case (Inl e')
    with a Some have "e = e'" by (simp add: apply_filter_def)
    moreover from Inl have "e' = TypeError" by (cases r) auto
    ultimately show ?thesis by simp
  next
    case (Inr xs)
    with a Some have "filter_raising (field_is k s) xs = Inl e"
      by (simp add: apply_filter_def split: sum.splits)
    then obtain x where "field_is k s x = Inl e" by (blast dest: filter_raising_error)
    then show ?thesis by (rule field_is_error)
  qed
qed

lemma apply_filter_well_formed:
  assumes "\<forall>r\<in>set rs. field r k \<noteq> None"
  shows "apply_filter k v (JArr rs) = Inr (JArr (filter (field_matches k v) rs))"
proof (cases v)
  case None
  then show ?thesis by (simp add: apply_filter_def field_matches_def)
next
  case (Some s)
  have "\<forall>r\<in>set rs. field_is k s r = Inr (field_matches k v r)"
  proof
    fix r assume "r \<in> set rs"
    with assms obtain x where x: "field r k = Some x" by auto
    then show "field_is k s r = Inr (field_matches k v r)"
      by (simp add: field_is_field field_matches_def Some)
  qed
  then have "filter_raising (field_is k s) rs = Inr (filter (field_matches k v) rs)"
    by (rule filter_raising_total)
  then show ?thesis by (simp add: apply_filter_def Some)
qed

lemma is_success_eq:
  "is_success x = response_result (Body (Some x))"
  by (cases x)
    (simp_all add: is_success_def field_is_def response_result_def eq_str_iff
      split: option.splits)

lemma list_result_error:
  "list_result editable name kind result = Inl e \<Longrightarrow> e = TypeError \<or> (\<exists>k. e = KeyError k)"
  by (auto simp: list_result_def is_success_def split: sum.splits bool.splits
      dest: subscript_error field_is_error apply_filter_error)

lemma list_result_response:
  "response_result (Body (Some x)) = Inl e \<Longrightarrow> list_result editable name kind x = Inl e"
  "response_result (Body (Some x)) = Inr False \<Longrightarrow> list_result editable name kind x = Inr JNull"
  by (simp_all add: list_result_def is_success_eq)

lemma list_result_no_data:
  assumes "map_of kvs ''result'' = Some (JStr ''success'')" and "map_of kvs ''data'' = None"
  shows "list_result editable name kind (JObj kvs) = Inl (KeyError ''data'')"
  using assms by (simp add: list_result_def is_success_eq response_result_def)

lemma list_result_well_formed:
  assumes "map_of kvs ''result'' = Some (JStr ''success'')"
    and "map_of kvs ''data'' = Some (JArr rs)"
    and wf: "\<forall>r\<in>set rs. well_formed r"
  shows "list_result editable name kind (JObj kvs)
         = Inr (JArr (filter (wanted editable name kind) rs))"
proof -
  let ?r1 = "filter (field_matches ''editable'' editable) rs"
  let ?r2 = "filter (field_matches ''record'' name) ?r1"
  have s: "is_success (JObj kvs) = Inr True"
    using assms(1) by (simp add: is_success_def field_is_def)
  have d: "subscript (JObj kvs) ''data'' = Inr (JArr rs)"
    using assms(2) by simp
  have 1: "apply_filter ''editable'' editable (JArr rs) = Inr (JArr ?r1)"
    using wf by (intro apply_filter_well_formed) (simp add: well_formed_def)
  have 2: "apply_filter ''record'' name (JArr ?r1) = Inr (JArr ?r2)"
    using wf by (intro apply_filter_well_formed) (simp add: well_formed_def)
  have 3: "apply_filter ''type'' kind (JArr ?r2)
           = Inr (JArr (filter (field_matches ''type'' kind) ?r2))"
    using wf by (intro apply_filter_well_formed) (simp add: well_formed_def)
  have "filter (field_matches ''type'' kind) ?r2 = filter (wanted editable name kind) rs"
    by (auto simp: wanted_def intro: filter_cong)
  with s d 1 2 3 show ?thesis
    unfolding list_result_def by simp
qed

text \<open>
  The three operations in terms of the outcome of their one request.
\<close>

lemma request_json_eq:
  "request_json ev rq w =
     (case srv ev (calls w) rq of
        URLError m \<Rightarrow> Inl (ConnectionError m)
      | Raises n \<Rightarrow> Inl (OtherError n)
      | Body None \<Rightarrow> Inr JNull
      | Body (Some x) \<Rightarrow> Inr x, w\<lparr>calls := calls w @ [rq]\<rparr>)"
  by (simp add: request_json_def Let_def split: http_outcome.splits option.splits)

lemma response_result_None: "response_result (Body None) = Inl TypeError"
  by (simp add: response_result_def)

lemma dyndns_add_eq:
  "dyndns_add ev k name kind val comment w =
     (response_result (srv ev (calls w) (add_params ev k name kind val comment)),
      w\<lparr>calls := calls w @ [add_params ev k name kind val comment]\<rparr>)"
proof (cases "srv ev (calls w) (add_params ev k name kind val comment)")
  case (URLError m)
  then show ?thesis by (simp add: dyndns_add_def io_defs request_json_eq response_result_def)
next
  case (Raises n)
  then show ?thesis by (simp add: dyndns_add_def io_defs request_json_eq response_result_def)
next
  case (Body b)
  show ?thesis
  proof (cases b)
    case None
    with Body show ?thesis
      by (simp add: dyndns_add_def io_defs request_json_eq response_result_None
          is_success_def field_is_def)
  next
    case (Some x)
    with Body show ?thesis
      by (simp add: dyndns_add_def io_defs request_json_eq is_success_eq split: sum.splits)
  qed
qed

lemma dyndns_rem_eq:
  "dyndns_rem ev k name kind val w =
     (response_result (srv ev (calls w) (rem_params ev k name kind val)),
      w\<lparr>calls := calls w @ [rem_params ev k name kind val]\<rparr>)"
proof (cases "srv ev (calls w) (rem_params ev k name kind val)")
  case (URLError m)
  then show ?thesis by (simp add: dyndns_rem_def io_defs request_json_eq response_result_def)
next
  case (Raises n)
  then show ?thesis by (simp add: dyndns_rem_def io_defs request_json_eq response_result_def)
next
  case (Body b)
  show ?thesis
  proof (cases b)
    case None
    with Body show ?thesis
      by (simp add: dyndns_rem_def io_defs request_json_eq response_result_None
          is_success_def field_is_def)
  next
    case (Some x)
    with Body show ?thesis
      by (simp add: dyndns_rem_def io_defs request_json_eq is_success_eq split: sum.splits)
  qed
qed

lemma dyndns_list_eq:
  "dyndns_list ev k editable name kind w =
     (case srv ev (calls w) (list_params k (uuid4 ev (drawn w))) of
        URLError m \<Rightarrow> Inl (ConnectionError m)
      | Raises n \<Rightarrow> Inl (OtherError n)
      | Body None \<Rightarrow> Inl TypeError
      | Body (Some x) \<Rightarrow> list_result editable name kind x,
      w\<lparr>drawn := Suc (drawn w), calls := calls w @ [list_params k (uuid4 ev (drawn w))]\<rparr>)"
  by (simp add: dyndns_list_def io_defs request_json_eq Let_def list_result_def is_success_def
      field_is_def split: http_outcome.splits option.splits sum.splits)

lemma response_result_connection_error:
  "response_result outcome = Inl (ConnectionError m) \<longleftrightarrow> outcome = URLError m"
  by (auto simp: response_result_def split: http_outcome.splits option.splits json.splits)

lemma dyndns_add_calls:
  "calls (snd (dyndns_add ev k name kind val comment w))
   = calls w @ [add_params ev k name kind val comment]"
  by (simp add: dyndns_add_eq)

lemma dyndns_add_files: "files (snd (dyndns_add ev k name kind val comment w)) = files w"
  by (simp add: dyndns_add_eq)

lemma dyndns_add_drawn: "drawn (snd (dyndns_add ev k name kind val comment w)) = drawn w"
  by (simp add: dyndns_add_eq)

lemma dyndns_rem_calls:
  "calls (snd (dyndns_rem ev k name kind val w)) = calls w @ [rem_params ev k name kind val]"
  by (simp add: dyndns_rem_eq)

lemma dyndns_rem_files: "files (snd (dyndns_rem ev k name kind val w)) = files w"
  by (simp add: dyndns_rem_eq)

lemma dyndns_rem_drawn: "drawn (snd (dyndns_rem ev k name kind val w)) = drawn w"
  by (simp add: dyndns_rem_eq)

lemma dyndns_list_calls:
  "calls (snd (dyndns_list ev k editable name kind w))
   = calls w @ [list_params k (uuid4 ev (drawn w))]"
  by (simp add: dyndns_list_eq)

lemma dyndns_list_drawn:
  "drawn (snd (dyndns_list ev k editable name kind w)) = Suc (drawn w)"
  by (simp add: dyndns_list_eq)

lemma dyndns_list_files:
  "files (snd (dyndns_list ev k editable name kind w)) = files w"
  by (simp add: dyndns_list_eq)

lemma dyndns_list_connection_error:
  "fst (dyndns_list ev k editable name kind w) = Inl (ConnectionError m)
   \<longleftrightarrow> srv ev (calls w) (list_params k (uuid4 ev (drawn w))) = URLError m"
  by (auto simp: dyndns_list_eq split: http_outcome.splits option.splits
      dest: list_result_error)

lemma dyndns_list_well_formed:
  assumes "srv ev (calls w) (list_params k (uuid4 ev (drawn w))) = Body (Some (JObj kvs))"
    and "map_of kvs ''result'' = Some (JStr ''success'')"
    and "map_of kvs ''data'' = Some (JArr rs)"
    and "\<forall>r\<in>set rs. well_formed r"
  shows "dyndns_list ev k editable name kind w
         = (Inr (JArr (filter (wanted editable name kind) rs)),
            w\<lparr>drawn := Suc (drawn w), calls := calls w @ [list_params k (uuid4 ev (drawn w))]\<rparr>)"
  using assms(1) list_result_well_formed [OF assms(2,3,4), of editable name kind]
  by (simp add: dyndns_list_eq)

text \<open>
  The removal loop requests what \<open>removal_requests\<close> says and ends as
  \<open>removal_outcome\<close> says. Whatever its records are, it changes no file, draws no
  UUID and requests no add.
\<close>

lemma rem_each_Cons:
  "rem_each ev k name kind (r # rs) w =
     (case subscript r ''value'' of
        Inl e \<Rightarrow> (Inl e, w)
      | Inr v \<Rightarrow>
          (case fst (dyndns_rem ev k name kind v w) of
             Inl e \<Rightarrow> (Inl e, snd (dyndns_rem ev k name kind v w))
           | Inr b \<Rightarrow> rem_each ev k name kind rs (snd (dyndns_rem ev k name kind v w))))"
  by (simp split: sum.splits prod.splits)

lemma rem_each_eq:
  assumes "\<forall>r\<in>set rs. field r ''value'' \<noteq> None"
  shows "rem_each ev k name kind rs w =
           (removal_outcome ev k name kind (calls w) rs,
            w\<lparr>calls := calls w @ removal_requests ev k name kind (calls w) rs\<rparr>)"
  using assms
proof (induction rs arbitrary: w)
  case Nil
  show ?case by simp
next
  case (Cons r rs)
  from Cons.prems obtain v where v: "field r ''value'' = Some v" by auto
  then have sub: "subscript r ''value'' = Inr v" by (rule subscript_field)
  from v have vo: "value_of r = v" by (simp add: value_of_def)
  let ?rq = "rem_params ev k name kind v"
  let ?w' = "w\<lparr>calls := calls w @ [?rq]\<rparr>"
  show ?case
  proof (cases "response_result (srv ev (calls w) ?rq)")
    case (Inl e)
    then show ?thesis
      by (simp only: rem_each_Cons sub sum.case dyndns_rem_eq fst_conv snd_conv
          removal_outcome.simps removal_requests.simps vo)
  next
    case (Inr b)
    from Cons.prems have "\<forall>r\<in>set rs. field r ''value'' \<noteq> None" by simp
    from Cons.IH [OF this, of ?w'] Inr show ?thesis
      by (simp add: rem_each_Cons sub dyndns_rem_eq vo del: rem_each.simps)
  qed
qed

lemma is_add_rem_params: "\<not> is_add (rem_params ev k name kind v)"
  by (simp add: is_add_def rem_params_def)

lemma is_add_list_params: "\<not> is_add (list_params k n)"
  by (simp add: is_add_def list_params_def)

lemma rem_each_quiet:
  "\<exists>new. snd (rem_each ev k name kind rs w) = w\<lparr>calls := calls w @ new\<rparr>
         \<and> filter is_add new = []"
proof (induction rs arbitrary: w)
  case Nil
  show ?case by (intro exI [of _ "[]"]) simp
next
  case (Cons r rs)
  show ?case
  proof (cases "subscript r ''value''")
    case (Inl e)
    then show ?thesis by (intro exI [of _ "[]"]) (simp add: rem_each_Cons del: rem_each.simps)
  next
    case (Inr v)
    let ?rq = "rem_params ev k name kind v"
    let ?w' = "w\<lparr>calls := calls w @ [?rq]\<rparr>"
    show ?thesis
    proof (cases "response_result (srv ev (calls w) ?rq)")
      case (Inl e)
      with Inr show ?thesis
        by (intro exI [of _ "[?rq]"])
          (simp add: rem_each_Cons dyndns_rem_eq is_add_rem_params del: rem_each.simps)
    next
      case b: (Inr b)
      from Cons.IH [of ?w'] obtain new where
        "snd (rem_each ev k name kind rs ?w') = ?w'\<lparr>calls := calls ?w' @ new\<rparr>"
        "filter is_add new = []" by blast
      with Inr b show ?thesis
        by (intro exI [of _ "?rq # new"])
          (simp add: rem_each_Cons dyndns_rem_eq is_add_rem_params del: rem_each.simps)
    qed
  qed
qed

lemma dyndns_clean_quiet:
  "\<exists>new. snd (dyndns_clean ev k name kind w)
           = w\<lparr>drawn := Suc (drawn w), calls := calls w @ new\<rparr>
         \<and> filter is_add new = []"
proof -
  let ?lrq = "list_params k (uuid4 ev (drawn w))"
  let ?w1 = "w\<lparr>drawn := Suc (drawn w), calls := calls w @ [?lrq]\<rparr>"
  have l: "snd (dyndns_list ev k (Some ''1'') (Some name) (Some kind) w) = ?w1"
    by (simp add: dyndns_list_eq)
  show ?thesis
  proof (cases "fst (dyndns_list ev k (Some ''1'') (Some name) (Some kind) w)")
    case (Inl e)
    with l have "snd (dyndns_clean ev k name kind w) = ?w1"
      by (cases "dyndns_list ev k (Some ''1'') (Some name) (Some kind) w")
        (simp add: dyndns_clean_def io_defs)
    then show ?thesis
      by (intro exI [of _ "[?lrq]"]) (simp add: is_add_list_params)
  next
    case (Inr results)
    show ?thesis
    proof (cases "results \<noteq> JNull \<and> (\<exists>rs. iterate results = Inr rs)")
      case False
      with Inr l have "snd (dyndns_clean ev k name kind w) = ?w1"
        by (cases "dyndns_list ev k (Some ''1'') (Some name) (Some kind) w";
            cases "iterate results")
          (auto simp: dyndns_clean_def io_defs)
      then show ?thesis
        by (intro exI [of _ "[?lrq]"]) (simp add: is_add_list_params)
    next
      case True
      then obtain rs where rs: "results \<noteq> JNull" "iterate results = Inr rs" by blast
      with Inr l have c: "dyndns_clean ev k name kind w = rem_each ev k name kind rs ?w1"
        by (cases "dyndns_list ev k (Some ''1'') (Some name) (Some kind) w")
          (simp add: dyndns_clean_def io_defs)
      from rem_each_quiet [of ev k name kind rs ?w1] obtain new where
        "snd (rem_each ev k name kind rs ?w1) = ?w1\<lparr>calls := calls ?w1 @ new\<rparr>"
        "filter is_add new = []" by blast
      with c show ?thesis
        by (intro exI [of _ "?lrq # new"]) (simp add: is_add_list_params)
    qed
  qed
qed

lemma dyndns_clean_connection_error:
  assumes "srv ev (calls w) (list_params k (uuid4 ev (drawn w))) = URLError m"
  shows "fst (dyndns_clean ev k name kind w) = Inl (ConnectionError m)"
  using assms by (simp add: dyndns_clean_def dyndns_list_eq io_defs)

text \<open>
  The removals to request are a prefix of the removals of all the records, and all of
  them when the step ends normally.
\<close>

lemma removal_requests_prefix:
  "\<exists>n. removal_requests ev k name kind h rs
        = take n (map (\<lambda>r. rem_params ev k name kind (value_of r)) rs)"
proof (induction rs arbitrary: h)
  case Nil
  show ?case by simp
next
  case (Cons r rs)
  show ?case
  proof (cases "response_result (srv ev h (rem_params ev k name kind (value_of r)))")
    case (Inl e)
    then show ?thesis by (intro exI [of _ "Suc 0"]) simp
  next
    case (Inr b)
    from Cons.IH [of "h @ [rem_params ev k name kind (value_of r)]"] obtain n where
      "removal_requests ev k name kind (h @ [rem_params ev k name kind (value_of r)]) rs
       = take n (map (\<lambda>r. rem_params ev k name kind (value_of r)) rs)" ..
    with Inr show ?thesis by (intro exI [of _ "Suc n"]) simp
  qed
qed

lemma removal_requests_all:
  "removal_outcome ev k name kind h rs = Inr () \<Longrightarrow>
   removal_requests ev k name kind h rs = map (\<lambda>r. rem_params ev k name kind (value_of r)) rs"
  by (induction rs arbitrary: h) (auto split: sum.splits)

lemma removal_outcome_answered:
  "\<forall>h v. \<exists>b. response_result (srv ev h (rem_params ev k name kind v)) = Inr b \<Longrightarrow>
   removal_outcome ev k name kind h rs = Inr ()"
proof (induction rs arbitrary: h)
  case Nil
  show ?case by simp
next
  case (Cons r rs)
  from Cons.prems obtain b where
    "response_result (srv ev h (rem_params ev k name kind (value_of r))) = Inr b" by blast
  with Cons show ?case by simp
qed

section \<open>Facts about the flow\<close>

lemmas sample_defs = provider_ok_def provider_down_def provider_garbled_def provider_refuses_def
  provider_drops_def provider_lists_only_def a_record_def stale_records_def mixed_records_def
  sample_env_def sample_params_def sample_world_def

lemmas flow_defs = main_flow_def clean_mode_def read_ip_cache_def resolve_current_ip_def
  get_current_ip_def update_steps_def add_and_persist_def write_ip_cache_def os_remove_def
  logfile_log_def Log_log_def Log_init_def ip_cachename_def format_opt_def

lemmas api_defs = dyndns_clean_def dyndns_list_def dyndns_add_def dyndns_rem_def request_json_def
  list_result_def is_success_def field_is_def apply_filter_def list_params_def add_params_def
  rem_params_def

text \<open>
  Every call of \<open>logfile.log\<close> raises \<open>TypeError\<close> and changes nothing. So the clean
  branch and the update block both end in an exception once their Clean step is over,
  the warning about a missing cache file ends the run, and so does the handler of a
  failed address resolution.
\<close>

lemma logfile_log_eq: "logfile_log msg w = (Inl TypeError, w)"
  by (simp add: logfile_log_def Log_log_def raise_def)

lemma clean_mode_eq:
  "clean_mode ev p w =
     (case fst (dyndns_clean ev (key p) (hostname p) ''A'' w) of
        Inl e \<Rightarrow> Inl e | Inr u \<Rightarrow> Inl TypeError,
      snd (dyndns_clean ev (key p) (hostname p) ''A'' w))"
  by (simp add: clean_mode_def bnd_def logfile_log_eq split: prod.splits sum.splits)

lemma update_steps_eq:
  "update_steps ev p ip w =
     (case fst (dyndns_clean ev (key p) (hostname p) ''A'' w) of
        Inl e \<Rightarrow> Inl e | Inr u \<Rightarrow> Inl TypeError,
      snd (dyndns_clean ev (key p) (hostname p) ''A'' w))"
  by (simp add: update_steps_def bnd_def logfile_log_eq split: prod.splits sum.splits)

lemma read_ip_cache_eq:
  "read_ip_cache p w =
     (case files w (ip_cachename p) of
        None \<Rightarrow> (Inl TypeError, w)
      | Some t \<Rightarrow> (Inr (Some (rstrip (universal_newlines t))), w))"
  by (simp add: read_ip_cache_def bnd_def logfile_log_eq split: option.splits)

lemma resolve_current_ip_eq:
  "resolve_current_ip ev p w =
     (case route ev of
        Inl strerror \<Rightarrow> (Inl TypeError, w)
      | Inr ip \<Rightarrow> (Inr (Bound ip), w))"
  by (simp add: resolve_current_ip_def get_current_ip_def bnd_def logfile_log_eq ret_def
      split: sum.splits)

text \<open>What the flow amounts to, case by case.\<close>

lemma Log_init_eq:
  "Log_init ev lf b w =
     (if b \<and> \<not> writable ev lf then (Inl (OSError lf), w)
      else (Inr (), snd (Log_init ev lf b w)))"
  by (simp add: Log_init_def)

lemma Log_init_calls: "calls (snd (Log_init ev lf b w)) = calls w"
  by (simp add: Log_init_def)

lemma Log_init_drawn: "drawn (snd (Log_init ev lf b w)) = drawn w"
  by (simp add: Log_init_def)

lemma Log_init_files:
  "files w name = Some t \<Longrightarrow> files (snd (Log_init ev lf b w)) name = Some t"
  by (auto simp: Log_init_def)

lemma Log_init_other_file:
  "lf \<noteq> name \<Longrightarrow> files (snd (Log_init ev lf b w)) name = files w name"
  by (simp add: Log_init_def)

lemma main_flow_eq:
  "main_flow ev p w =
     (if logfile p \<noteq> [] \<and> \<not> writable ev (logfile p) then (Inl (OSError (logfile p)), w)
      else
        (let w' = snd (Log_init ev (logfile p) (logfile p \<noteq> []) w) in
         if clean p then clean_mode ev p w'
         else
           (case files w' (ip_cachename p) of
              None \<Rightarrow> (Inl TypeError, w')
            | Some t \<Rightarrow>
                (case route ev of
                   Inl strerror \<Rightarrow> (Inl TypeError, w')
                 | Inr ip \<Rightarrow>
                     if update_decision (Some (rstrip (universal_newlines t))) (Some ip) (hard p)
                     then (case fst (update_steps ev p ip w') of
                             Inl e \<Rightarrow> Inl e | Inr u \<Rightarrow> Inr 0,
                           snd (update_steps ev p ip w'))
                     else (Inr 0, w')))))"
proof (cases "logfile p \<noteq> [] \<and> \<not> writable ev (logfile p)")
  case True
  then show ?thesis
    unfolding main_flow_def by (subst bnd_def, subst Log_init_eq) simp
next
  case ok: False
  let ?w' = "snd (Log_init ev (logfile p) (logfile p \<noteq> []) w)"
  let ?rest = "if clean p then clean_mode ev p
       else
         bnd (read_ip_cache p) (\<lambda>cached_ip.
         bnd (resolve_current_ip ev p) (\<lambda>current_ip.
           case current_ip of
             Unbound \<Rightarrow> raise (UnboundLocalError ''current_ip'')
           | Bound ip \<Rightarrow>
               if update_decision cached_ip (Some ip) (hard p)
               then bnd (update_steps ev p ip) (\<lambda>_. ret 0)
               else ret 0))"
  have 1: "main_flow ev p w = ?rest ?w'"
    using ok unfolding main_flow_def by (subst bnd_def, subst Log_init_eq) auto
  show ?thesis
  proof (cases "clean p")
    case True
    with 1 show ?thesis by (simp add: Let_def if_not_P [OF ok])
  next
    case False
    note nc = this
    show ?thesis
    proof (cases "files ?w' (ip_cachename p)")
      case None
      with 1 nc show ?thesis
        by (simp add: Let_def bnd_def read_ip_cache_eq if_not_P [OF ok])
    next
      case (Some t)
      note st = this
      show ?thesis
      proof (cases "route ev")
        case (Inl strerror)
        with 1 nc st show ?thesis
          by (simp add: Let_def bnd_def read_ip_cache_eq resolve_current_ip_eq
              if_not_P [OF ok])
      next
        case (Inr ip)
        with 1 nc st show ?thesis
          by (cases "update_steps ev p ip ?w'")
            (simp add: Let_def bnd_def read_ip_cache_eq resolve_current_ip_eq ret_def
              if_not_P [OF ok] split: sum.splits)
      qed
    qed
  qed
qed

lemma update_decision_formula:
  "update_decision cached_ip current_ip force
     \<longleftrightarrow> current_ip \<noteq> None \<and> (cached_ip = None \<or> cached_ip \<noteq> current_ip \<or> force)"
  by (auto simp: update_decision_def)

lemma main_flow_returns_zero: "fst (main_flow ev p w) = Inr c \<Longrightarrow> c = 0"
  unfolding main_flow_eq Let_def clean_mode_eq update_steps_eq
  by (simp split: if_splits option.splits sum.splits)

text \<open>
  No handler surrounds the Clean step: when the transport of its list request fails, in
  clean mode or in an update, \<open>ConnectionError\<close> leaves the flow.
\<close>

lemma main_flow_connection_error:
  assumes "logfile p = [] \<or> writable ev (logfile p)"
    and "srv ev (calls w) (list_params (key p) (uuid4 ev (drawn w))) = URLError m"
    and "clean p \<or> (\<exists>t ip. files w (ip_cachename p) = Some t \<and> route ev = Inr ip
           \<and> update_decision (Some (rstrip (universal_newlines t))) (Some ip) (hard p))"
  shows "fst (main_flow ev p w) = Inl (ConnectionError m)"
proof -
  let ?w' = "snd (Log_init ev (logfile p) (logfile p \<noteq> []) w)"
  from assms(2) have "srv ev (calls ?w') (list_params (key p) (uuid4 ev (drawn ?w'))) = URLError m"
    by (simp add: Log_init_calls Log_init_drawn)
  then have c: "fst (dyndns_clean ev (key p) (hostname p) ''A'' ?w') = Inl (ConnectionError m)"
    by (rule dyndns_clean_connection_error)
  from assms(3) show ?thesis
  proof
    assume "clean p"
    with assms(1) c show ?thesis by (auto simp: main_flow_eq Let_def clean_mode_eq)
  next
    assume "\<exists>t ip. files w (ip_cachename p) = Some t \<and> route ev = Inr ip
           \<and> update_decision (Some (rstrip (universal_newlines t))) (Some ip) (hard p)"
    then obtain t ip where t: "files w (ip_cachename p) = Some t" "route ev = Inr ip"
      "update_decision (Some (rstrip (universal_newlines t))) (Some ip) (hard p)" by blast
    show ?thesis
    proof (cases "clean p")
      case True
      with assms(1) c show ?thesis by (auto simp: main_flow_eq Let_def clean_mode_eq)
    next
      case False
      with assms(1) c t Log_init_files [OF t(1), of ev "logfile p" "logfile p \<noteq> []"]
      show ?thesis by (auto simp: main_flow_eq Let_def update_steps_eq)
    qed
  qed
qed

text \<open>
  No run of the flow requests an add or writes the cache: the world it leaves differs
  from the one it found in the log file it opened, the UUID drawn and the list and
  remove requests of a Clean step.
\<close>

lemma main_flow_quiet:
  "\<exists>new n. snd (main_flow ev p w)
             = (snd (Log_init ev (logfile p) (logfile p \<noteq> []) w))
                 \<lparr>drawn := n, calls := calls w @ new\<rparr>
           \<and> filter is_add new = []"
proof -
  let ?w' = "snd (Log_init ev (logfile p) (logfile p \<noteq> []) w)"
  have same: "?w' = ?w'\<lparr>drawn := drawn ?w', calls := calls w @ []\<rparr>"
    by (simp add: Log_init_calls)
  have fail: "w = ?w'" if "logfile p \<noteq> [] \<and> \<not> writable ev (logfile p)"
    using that by (simp add: Log_init_def)
  from dyndns_clean_quiet [of ev "key p" "hostname p" "''A''" ?w'] obtain new where
    new: "snd (dyndns_clean ev (key p) (hostname p) ''A'' ?w')
          = ?w'\<lparr>drawn := Suc (drawn ?w'), calls := calls w @ new\<rparr>"
      "filter is_add new = []"
    by (auto simp: Log_init_calls)
  have "snd (main_flow ev p w) = ?w'
        \<or> snd (main_flow ev p w) = snd (dyndns_clean ev (key p) (hostname p) ''A'' ?w')"
  proof (cases "logfile p \<noteq> [] \<and> \<not> writable ev (logfile p)")
    case True
    with fail show ?thesis by (simp add: main_flow_eq)
  next
    case False
    then have m: "main_flow ev p w =
        (if clean p then clean_mode ev p ?w'
         else
           (case files ?w' (ip_cachename p) of
              None \<Rightarrow> (Inl TypeError, ?w')
            | Some t \<Rightarrow>
                (case route ev of
                   Inl strerror \<Rightarrow> (Inl TypeError, ?w')
                 | Inr ip \<Rightarrow>
                     if update_decision (Some (rstrip (universal_newlines t))) (Some ip) (hard p)
                     then (case fst (update_steps ev p ip ?w') of
                             Inl e \<Rightarrow> Inl e | Inr u \<Rightarrow> Inr 0,
                           snd (update_steps ev p ip ?w'))
                     else (Inr 0, ?w'))))"
      by (auto simp: main_flow_eq Let_def)
    show ?thesis
      unfolding m by (simp add: clean_mode_eq update_steps_eq split: option.splits sum.splits)
  qed
  then show ?thesis
  proof
    assume "snd (main_flow ev p w) = ?w'"
    with same show ?thesis
      by (intro exI [of _ "[]"] exI [of _ "drawn ?w'"]) simp
  next
    assume "snd (main_flow ev p w) = snd (dyndns_clean ev (key p) (hostname p) ''A'' ?w')"
    with new show ?thesis
      by (intro exI [of _ new] exI [of _ "Suc (drawn ?w')"]) simp
  qed
qed

lemma pushed_append:
  "pushed ev host h (cs @ new) = pushed ev host h cs @ pushed ev host (h @ cs) new"
  by (induction cs arbitrary: h) auto

lemma pushed_no_add: "filter is_add new = [] \<Longrightarrow> pushed ev host h new = []"
  by (induction new arbitrary: h) (auto split: if_splits)

lemma last_pushed_no_add:
  "filter is_add new = [] \<Longrightarrow> last_pushed ev host (cs @ new) = last_pushed ev host cs"
  by (simp add: last_pushed_def pushed_append pushed_no_add)

text \<open>
  The parser is never built: \<open>-h\<close> is registered for \<open>--help\<close> when \<open>--hard\<close> asks for
  it, so \<open>main\<close> raises \<open>ArgumentError\<close> before it parses anything and leaves the world
  as it found it.
\<close>

lemma argparser_conflict: "argparser = Inl (ArgumentError ''conflicting option string: -h'')"
  by (simp add: argparser_def add_argument_def)

lemma main_raises:
  "main parse_args ev args w = (Inl (ArgumentError ''conflicting option string: -h''), w)"
  by (simp add: main_def argparser_conflict raise_def)

text \<open>
  So a run of the flow leaves the cache entry as it found it (when the log file is not
  the cache file) and requests no add: a cache that reflected the provider before the
  run still does after it. A run of \<open>main\<close> leaves the whole world as it found it.
\<close>

lemma main_flow_keeps_cache:
  "(logfile p \<noteq> ip_cachename p \<longrightarrow>
      files (snd (main_flow ev p w)) (ip_cachename p) = files w (ip_cachename p))
   \<and> filter is_add (calls (snd (main_flow ev p w))) = filter is_add (calls w)
   \<and> last_pushed ev (hostname p) (calls (snd (main_flow ev p w)))
       = last_pushed ev (hostname p) (calls w)
   \<and> (logfile p \<noteq> ip_cachename p \<and> cache_reflects ev p w \<longrightarrow>
        cache_reflects ev p (snd (main_flow ev p w)))
   \<and> snd (main parse_args ev args w) = w"
proof -
  let ?w' = "snd (Log_init ev (logfile p) (logfile p \<noteq> []) w)"
  from main_flow_quiet [of ev p w] obtain new n where
    s: "snd (main_flow ev p w) = ?w'\<lparr>drawn := n, calls := calls w @ new\<rparr>"
    and q: "filter is_add new = []" by blast
  have f: "files (snd (main_flow ev p w)) (ip_cachename p) = files w (ip_cachename p)"
    if "logfile p \<noteq> ip_cachename p"
    using that by (simp add: s Log_init_other_file)
  have c: "filter is_add (calls (snd (main_flow ev p w))) = filter is_add (calls w)"
    by (simp add: s q)
  have l: "last_pushed ev (hostname p) (calls (snd (main_flow ev p w)))
           = last_pushed ev (hostname p) (calls w)"
    by (simp add: s last_pushed_no_add [OF q])
  have r: "cache_reflects ev p (snd (main_flow ev p w))"
    if "logfile p \<noteq> ip_cachename p" "cache_reflects ev p w"
    using that(2) f [OF that(1)] l by (simp add: cache_reflects_def split: option.splits)
  have m: "snd (main parse_args ev args w) = w"
    by (simp add: main_raises)
  show ?thesis
    using f c l r m by simp
qed

text \<open>The Add and Persist steps, and the text that a cache read gives back.\<close>

lemma add_and_persist_eq:
  "add_and_persist ev p ip w =
     (case fst (dyndns_add ev (key p) (hostname p) ''A'' ip [] w) of
        Inl e \<Rightarrow> (Inl e, snd (dyndns_add ev (key p) (hostname p) ''A'' ip [] w))
      | Inr b \<Rightarrow> write_ip_cache ev p ip (snd (dyndns_add ev (key p) (hostname p) ''A'' ip [] w)))"
  by (cases "dyndns_add ev (key p) (hostname p) ''A'' ip [] w")
    (simp add: add_and_persist_def bnd_def split: sum.splits)

lemma universal_newlines_id: "CHR 0x0D \<notin> set s \<Longrightarrow> universal_newlines s = s"
  by (induction s rule: universal_newlines.induct) auto

lemma rstrip_newline:
  assumes "ip = [] \<or> \<not> isspace (last ip)"
  shows "rstrip (ip @ [CHR 0x0A]) = ip"
proof (cases ip rule: rev_cases)
  case Nil
  then show ?thesis by (simp add: rstrip_def isspace_def)
next
  case (snoc xs x)
  with assms have "\<not> isspace x" by simp
  with snoc show ?thesis by (simp add: rstrip_def isspace_def)
qed

section \<open>The claims\<close>

text \<open>
  C1 (the code departs from it). A forced update with the cache equal to the current IP
  and a provider that answers every request with success: the list request and the two
  removals are made, then \<open>logfile.log\<close> raises \<open>TypeError\<close>, which nothing catches. No
  remote call failed, and the run does not end with code 0. In \<open>main\<close> itself the parser
  raises \<open>ArgumentError\<close> before the flow begins.
\<close>

theorem forced_update_run:
  "fst (main_flow (sample_env (provider_ok stale_records) (Inr ''203.0.113.5''))
          (sample_params False True) (sample_world (Some ''203.0.113.5''))) = Inl TypeError
   \<and> calls (snd (main_flow (sample_env (provider_ok stale_records) (Inr ''203.0.113.5''))
          (sample_params False True) (sample_world (Some ''203.0.113.5''))))
     = [list_params ''KEY'' ''uuid4:'',
        rem_params (sample_env (provider_ok stale_records) (Inr ''203.0.113.5''))
          ''KEY'' ''host.example.com'' ''A'' (JStr ''203.0.113.5''),
        rem_params (sample_env (provider_ok stale_records) (Inr ''203.0.113.5''))
          ''KEY'' ''host.example.com'' ''A'' (JStr ''203.0.113.6'')]
   \<and> main (\<lambda>args. sample_params False True)
        (sample_env (provider_ok stale_records) (Inr ''203.0.113.5''))
        [''KEY'', ''host.example.com'', ''--hard''] (sample_world (Some ''203.0.113.5''))
     = (Inl (ArgumentError ''conflicting option string: -h''), sample_world (Some ''203.0.113.5''))"
proof -
  have "main_flow (sample_env (provider_ok stale_records) (Inr ''203.0.113.5''))
          (sample_params False True) (sample_world (Some ''203.0.113.5''))
        = (Inl TypeError,
           (sample_world (Some ''203.0.113.5''))
             \<lparr>calls :=
                [list_params ''KEY'' ''uuid4:'',
                 rem_params (sample_env (provider_ok stale_records) (Inr ''203.0.113.5''))
                   ''KEY'' ''host.example.com'' ''A'' (JStr ''203.0.113.5''),
                 rem_params (sample_env (provider_ok stale_records) (Inr ''203.0.113.5''))
                   ''KEY'' ''host.example.com'' ''A'' (JStr ''203.0.113.6'')],
              drawn := 1\<rparr>)"
    by (simp add: sample_defs flow_defs api_defs io_defs rstrip_def isspace_def
        update_decision_def)
  then show ?thesis by (simp add: main_raises)
qed

text \<open>
  C2 (the code departs from it). The cache holds 203.0.113.5 and connecting the socket
  fails. The handler of \<open>ConnectionError\<close> calls \<open>logfile.log\<close>, which raises
  \<open>TypeError\<close>: the run ends there with an uncaught exception instead of going on with an
  unknown current IP to a false update decision and \<open>return 0\<close>. No request is made and
  no file changes.
\<close>

theorem ip_resolution_failure_run:
  "main_flow (sample_env (provider_ok []) (Inl (Some ''Network is unreachable'')))
     (sample_params False False) (sample_world (Some ''203.0.113.5''))
   = (Inl TypeError, sample_world (Some ''203.0.113.5''))"
  by (simp add: sample_defs flow_defs io_defs)

text \<open>
  C3 (the code departs from it). No cache file, the address resolves and the provider is
  healthy: the cached IP is unknown and the current IP is known, so the update decision
  of the claim is true and the Clean, Add and Persist steps are to run. The code ends in
  the handler of the failed cache read, where \<open>logfile.log\<close> raises \<open>TypeError\<close>: no
  request is made and nothing is written. In \<open>main\<close> itself the parser raises
  \<open>ArgumentError\<close> before that.
\<close>

theorem missing_cache_run:
  "update_decision None (Some ''203.0.113.9'') False
   \<and> main_flow (sample_env (provider_ok []) (Inr ''203.0.113.9'')) (sample_params False False)
        (sample_world None)
     = (Inl TypeError, sample_world None)
   \<and> main (\<lambda>args. sample_params False False)
        (sample_env (provider_ok []) (Inr ''203.0.113.9''))
        [''KEY'', ''host.example.com''] (sample_world None)
     = (Inl (ArgumentError ''conflicting option string: -h''), sample_world None)"
  by (simp add: main_raises update_decision_def sample_defs flow_defs io_defs)

text \<open>
  C4, as stated, fails: \<open>dyndns_clean\<close> has no handler around \<open>dyndns_rem\<close>, so a removal
  that raises ends the loop. With two matching records and a provider that answers the
  list request and then cannot be reached, one removal is requested, not two.
\<close>

theorem clean_stops_at_failed_removal_counterexample:
  "filter (wanted (Some ''1'') (Some ''host.example.com'') (Some ''A'')) stale_records
     = stale_records
   \<and> length stale_records = 2
   \<and> dyndns_clean (sample_env (provider_lists_only stale_records) (Inr ''203.0.113.9''))
        ''KEY'' ''host.example.com'' ''A'' (sample_world None)
     = (Inl (ConnectionError None),
        \<lparr>calls =
           [list_params ''KEY'' ''uuid4:'',
            rem_params (sample_env (provider_lists_only stale_records) (Inr ''203.0.113.9''))
              ''KEY'' ''host.example.com'' ''A'' (JStr ''203.0.113.5'')],
         files = Map.empty, drawn = 1\<rparr>)"
  by (simp add: sample_defs api_defs io_defs wanted_def field_matches_def field_def)

text \<open>
  C4, amended. When the list request succeeds with well-formed records, the Clean step
  requests, after the list request, a removal for the records that are editable
  (\<open>'1'\<close>) and have the host name and the kind, in the listed order, one for each and
  with that record's value, up to and including the first removal that raises, and it
  ends with the exception of that removal; when no removal raises it requests one for
  every matching record and returns. So the removals requested are a prefix of those of
  the matching records, all of them whenever the step returns, which it does whenever
  the provider answers every removal with an object that has a \<open>result\<close> field. With
  no matching record the step makes the list request only and returns.
\<close>

theorem dyndns_clean_removals:
  assumes "srv ev (calls w) (list_params k (uuid4 ev (drawn w))) = Body (Some (JObj kvs))"
    and "map_of kvs ''result'' = Some (JStr ''success'')"
    and "map_of kvs ''data'' = Some (JArr rs)"
    and "\<forall>r\<in>set rs. well_formed r"
  shows
    "(let listing = calls w @ [list_params k (uuid4 ev (drawn w))];
          matching = filter (wanted (Some ''1'') (Some name) (Some kind)) rs
      in dyndns_clean ev k name kind w
           = (removal_outcome ev k name kind listing matching,
              w\<lparr>drawn := Suc (drawn w),
                calls := listing @ removal_requests ev k name kind listing matching\<rparr>)
         \<and> (\<exists>n. removal_requests ev k name kind listing matching
                   = take n (map (\<lambda>r. rem_params ev k name kind (value_of r)) matching))
         \<and> (removal_outcome ev k name kind listing matching = Inr () \<longrightarrow>
               removal_requests ev k name kind listing matching
                 = map (\<lambda>r. rem_params ev k name kind (value_of r)) matching)
         \<and> ((\<forall>h v. \<exists>b. response_result (srv ev h (rem_params ev k name kind v)) = Inr b) \<longrightarrow>
               removal_outcome ev k name kind listing matching = Inr ())
         \<and> (matching = [] \<longrightarrow>
               dyndns_clean ev k name kind w
                 = (Inr (), w\<lparr>drawn := Suc (drawn w), calls := listing\<rparr>)))"
proof -
  let ?lrq = "list_params k (uuid4 ev (drawn w))"
  let ?ms = "filter (wanted (Some ''1'') (Some name) (Some kind)) rs"
  let ?w1 = "w\<lparr>drawn := Suc (drawn w), calls := calls w @ [?lrq]\<rparr>"
  have l: "dyndns_list ev k (Some ''1'') (Some name) (Some kind) w = (Inr (JArr ?ms), ?w1)"
    using assms by (rule dyndns_list_well_formed)
  then have c: "dyndns_clean ev k name kind w = rem_each ev k name kind ?ms ?w1"
    by (simp add: dyndns_clean_def io_defs)
  have v: "\<forall>r\<in>set ?ms. field r ''value'' \<noteq> None"
    using assms(4) by (simp add: well_formed_def)
  have 1: "dyndns_clean ev k name kind w
           = (removal_outcome ev k name kind (calls w @ [?lrq]) ?ms,
              w\<lparr>drawn := Suc (drawn w),
                calls := (calls w @ [?lrq])
                         @ removal_requests ev k name kind (calls w @ [?lrq]) ?ms\<rparr>)"
    unfolding c by (simp add: rem_each_eq [OF v])
  have 2: "\<exists>n. removal_requests ev k name kind (calls w @ [?lrq]) ?ms
                 = take n (map (\<lambda>r. rem_params ev k name kind (value_of r)) ?ms)"
    by (rule removal_requests_prefix)
  have 3: "removal_outcome ev k name kind (calls w @ [?lrq]) ?ms = Inr () \<longrightarrow>
           removal_requests ev k name kind (calls w @ [?lrq]) ?ms
             = map (\<lambda>r. rem_params ev k name kind (value_of r)) ?ms"
    by (blast intro: removal_requests_all)
  have 4: "(\<forall>h v. \<exists>b. response_result (srv ev h (rem_params ev k name kind v)) = Inr b) \<longrightarrow>
           removal_outcome ev k name kind (calls w @ [?lrq]) ?ms = Inr ()"
    by (blast intro: removal_outcome_answered)
  have 5: "?ms = [] \<longrightarrow>
           dyndns_clean ev k name kind w
             = (Inr (), w\<lparr>drawn := Suc (drawn w), calls := calls w @ [?lrq]\<rparr>)"
    unfolding c by simp
  from 1 2 3 4 5 show ?thesis unfolding Let_def by blast
qed

theorem dyndns_clean_removals_witness:
  "list_all well_formed mixed_records
   \<and> filter (wanted (Some ''1'') (Some ''host.example.com'') (Some ''A'')) mixed_records
       = stale_records
   \<and> dyndns_clean (sample_env (provider_ok mixed_records) (Inr ''203.0.113.9''))
        ''KEY'' ''host.example.com'' ''A'' (sample_world None)
     = (Inr (),
        \<lparr>calls =
           [list_params ''KEY'' ''uuid4:'',
            rem_params (sample_env (provider_ok mixed_records) (Inr ''203.0.113.9''))
              ''KEY'' ''host.example.com'' ''A'' (JStr ''203.0.113.5''),
            rem_params (sample_env (provider_ok mixed_records) (Inr ''203.0.113.9''))
              ''KEY'' ''host.example.com'' ''A'' (JStr ''203.0.113.6'')],
         files = Map.empty, drawn = 1\<rparr>)
   \<and> dyndns_clean (sample_env (provider_lists_only mixed_records) (Inr ''203.0.113.9''))
        ''KEY'' ''host.example.com'' ''A'' (sample_world None)
     = (Inl (ConnectionError None),
        \<lparr>calls =
           [list_params ''KEY'' ''uuid4:'',
            rem_params (sample_env (provider_lists_only mixed_records) (Inr ''203.0.113.9''))
              ''KEY'' ''host.example.com'' ''A'' (JStr ''203.0.113.5'')],
         files = Map.empty, drawn = 1\<rparr>)"
proof -
  let ?ok = "sample_env (provider_ok mixed_records) (Inr ''203.0.113.9'')"
  let ?lo = "sample_env (provider_lists_only mixed_records) (Inr ''203.0.113.9'')"
  let ?w = "sample_world None"
  let ?kvs = "[(''result'', JStr ''success''), (''data'', JArr mixed_records)]"
  have w: "calls ?w = []" "drawn ?w = 0" "?w = \<lparr>calls = [], files = Map.empty, drawn = 0\<rparr>"
    by (simp_all add: sample_world_def)
  have 1: "srv ?ok (calls ?w) (list_params ''KEY'' (uuid4 ?ok (drawn ?w))) = Body (Some (JObj ?kvs))"
    by (simp add: sample_env_def provider_ok_def)
  have lo1: "srv ?lo (calls ?w) (list_params ''KEY'' (uuid4 ?lo (drawn ?w))) = Body (Some (JObj ?kvs))"
    by (simp add: sample_env_def provider_lists_only_def provider_ok_def list_params_def)
  have 2: "map_of ?kvs ''result'' = Some (JStr ''success'')" by simp
  have 3: "map_of ?kvs ''data'' = Some (JArr mixed_records)" by simp
  have 4: "\<forall>r\<in>set mixed_records. well_formed r"
    by (simp add: mixed_records_def a_record_def well_formed_def field_def)
  have 5: "filter (wanted (Some ''1'') (Some ''host.example.com'') (Some ''A'')) mixed_records
           = stale_records"
    by (simp add: mixed_records_def stale_records_def a_record_def wanted_def field_matches_def
        field_def)
  have a: "dyndns_clean ?ok ''KEY'' ''host.example.com'' ''A'' ?w
     = (Inr (),
        \<lparr>calls =
           [list_params ''KEY'' ''uuid4:'',
            rem_params ?ok ''KEY'' ''host.example.com'' ''A'' (JStr ''203.0.113.5''),
            rem_params ?ok ''KEY'' ''host.example.com'' ''A'' (JStr ''203.0.113.6'')],
         files = Map.empty, drawn = 1\<rparr>)"
    using dyndns_clean_removals [OF 1 2 3 4, of "''host.example.com''" "''A''"]
    unfolding Let_def 5
    by (simp add: w stale_records_def a_record_def value_of_def field_def response_result_def
        sample_env_def provider_ok_def)
  have b: "dyndns_clean ?lo ''KEY'' ''host.example.com'' ''A'' ?w
     = (Inl (ConnectionError None),
        \<lparr>calls =
           [list_params ''KEY'' ''uuid4:'',
            rem_params ?lo ''KEY'' ''host.example.com'' ''A'' (JStr ''203.0.113.5'')],
         files = Map.empty, drawn = 1\<rparr>)"
    using dyndns_clean_removals [OF lo1 2 3 4, of "''host.example.com''" "''A''"]
    unfolding Let_def 5
    by (simp add: w stale_records_def a_record_def value_of_def field_def response_result_def
        sample_env_def provider_lists_only_def rem_params_def)
  from 4 5 a b show ?thesis by (simp add: list_all_iff)
qed

text \<open>
  C5 (the code departs from it). Clean mode with five listed records, two of them
  matching: the list request and the two removals are made and no add request, but the
  call of \<open>logfile.log\<close> that follows raises \<open>TypeError\<close>, so \<open>os.remove\<close> is not reached,
  the cache file stays, and the run does not return 0.
\<close>

theorem clean_mode_run:
  "fst (main_flow (sample_env (provider_ok mixed_records) (Inr ''203.0.113.9''))
          (sample_params True False) (sample_world (Some ''203.0.113.5''))) = Inl TypeError
   \<and> calls (snd (main_flow (sample_env (provider_ok mixed_records) (Inr ''203.0.113.9''))
          (sample_params True False) (sample_world (Some ''203.0.113.5''))))
     = [list_params ''KEY'' ''uuid4:'',
        rem_params (sample_env (provider_ok mixed_records) (Inr ''203.0.113.9''))
          ''KEY'' ''host.example.com'' ''A'' (JStr ''203.0.113.5''),
        rem_params (sample_env (provider_ok mixed_records) (Inr ''203.0.113.9''))
          ''KEY'' ''host.example.com'' ''A'' (JStr ''203.0.113.6'')]
   \<and> files (snd (main_flow (sample_env (provider_ok mixed_records) (Inr ''203.0.113.9''))
          (sample_params True False) (sample_world (Some ''203.0.113.5''))))
        ''dyndns-host.example.com.txt''
     = Some (''203.0.113.5'' @ [CHR 0x0A])"
  by (simp add: sample_defs flow_defs api_defs io_defs)


text \<open>
  C7, as stated, fails. The code has no \<open>ProtocolError\<close>: a body that is not JSON makes
  \<open>request_json\<close> return \<open>None\<close>, and \<open>result['result']\<close> then raises \<open>TypeError\<close> in
  each of the three operations; an object without a \<open>result\<close> field raises \<open>KeyError\<close>.
  And a failure of the transport that is not a \<open>URLError\<close>, such as the provider closing
  the connection without an answer, leaves the operation as the exception it is, not as
  \<open>ConnectionError\<close>.
\<close>

theorem malformed_response_counterexample:
  "fst (dyndns_add (sample_env provider_garbled (Inr ''203.0.113.9'')) ''KEY'' ''host.example.com''
          ''A'' ''203.0.113.9'' [] (sample_world None)) = Inl TypeError
   \<and> fst (dyndns_rem (sample_env provider_garbled (Inr ''203.0.113.9'')) ''KEY'' ''host.example.com''
          ''A'' (JStr ''203.0.113.5'') (sample_world None)) = Inl TypeError
   \<and> fst (dyndns_list (sample_env provider_garbled (Inr ''203.0.113.9'')) ''KEY''
          (Some ''1'') (Some ''host.example.com'') (Some ''A'') (sample_world None)) = Inl TypeError
   \<and> fst (dyndns_list
             (sample_env (\<lambda>h rq. Body (Some (JObj [(''data'', JArr [])]))) (Inr ''203.0.113.9''))
             ''KEY'' (Some ''1'') (Some ''host.example.com'') (Some ''A'') (sample_world None))
       = Inl (KeyError ''result'')
   \<and> fst (dyndns_add (sample_env provider_drops (Inr ''203.0.113.9'')) ''KEY'' ''host.example.com''
          ''A'' ''203.0.113.9'' [] (sample_world None)) = Inl (OtherError ''RemoteDisconnected'')
   \<and> fst (dyndns_list (sample_env provider_drops (Inr ''203.0.113.9'')) ''KEY''
          (Some ''1'') (Some ''host.example.com'') (Some ''A'') (sample_world None))
       = Inl (OtherError ''RemoteDisconnected'')"
  by (simp add: sample_defs api_defs io_defs)

text \<open>
  C7, amended. An add and a remove make one request and end as \<open>response_result\<close> says
  of its outcome: with \<open>ConnectionError\<close> exactly when \<open>urlopen\<close> raises \<open>URLError\<close>,
  with the exception itself when the transport raises another one, with \<open>TypeError\<close>
  when the body is not JSON or not a JSON object, with \<open>KeyError\<close> when the object has
  no \<open>result\<close> field, and otherwise returning whether \<open>result\<close> is \<open>'success'\<close>. The
  list operation fails in the same cases with the same exceptions, and with
  \<open>ConnectionError\<close> in no other case; it returns \<open>None\<close> when \<open>result\<close> is not
  \<open>'success'\<close>, raises \<open>KeyError\<close> when a successful response has no \<open>data\<close> field, and
  returns the records that pass the filters, an empty list when there is none, when
  \<open>data\<close> is a list of well-formed records. Every exception of the list operation is
  one of these four kinds.
\<close>

theorem api_client_failures:
  "dyndns_add ev k name kind val comment w
     = (response_result (srv ev (calls w) (add_params ev k name kind val comment)),
        w\<lparr>calls := calls w @ [add_params ev k name kind val comment]\<rparr>)
   \<and> dyndns_rem ev k name kind v w
     = (response_result (srv ev (calls w) (rem_params ev k name kind v)),
        w\<lparr>calls := calls w @ [rem_params ev k name kind v]\<rparr>)
   \<and> (response_result outcome = Inl (ConnectionError m) \<longleftrightarrow> outcome = URLError m)
   \<and> (response_result outcome = Inl (OtherError n) \<longleftrightarrow> outcome = Raises n)
   \<and> response_result (Body None) = Inl TypeError
   \<and> ((\<forall>obj. x \<noteq> JObj obj) \<longrightarrow> response_result (Body (Some x)) = Inl TypeError)
   \<and> (map_of obj ''result'' = None \<longrightarrow>
        response_result (Body (Some (JObj obj))) = Inl (KeyError ''result''))
   \<and> (map_of obj ''result'' = Some r \<longrightarrow>
        response_result (Body (Some (JObj obj))) = Inr (r = JStr ''success''))
   \<and> (fst (dyndns_list ev k editable filter_name filter_kind w) = Inl (ConnectionError m)
        \<longleftrightarrow> srv ev (calls w) (list_params k (uuid4 ev (drawn w))) = URLError m)
   \<and> (fst (dyndns_list ev k editable filter_name filter_kind w) = Inl (OtherError n)
        \<longleftrightarrow> srv ev (calls w) (list_params k (uuid4 ev (drawn w))) = Raises n)
   \<and> (response_result (srv ev (calls w) (list_params k (uuid4 ev (drawn w)))) = Inl e \<longrightarrow>
        fst (dyndns_list ev k editable filter_name filter_kind w) = Inl e)
   \<and> (response_result (srv ev (calls w) (list_params k (uuid4 ev (drawn w)))) = Inr False \<longrightarrow>
        fst (dyndns_list ev k editable filter_name filter_kind w) = Inr JNull)
   \<and> (srv ev (calls w) (list_params k (uuid4 ev (drawn w))) = Body (Some (JObj kvs))
       \<and> map_of kvs ''result'' = Some (JStr ''success'') \<and> map_of kvs ''data'' = None \<longrightarrow>
        fst (dyndns_list ev k editable filter_name filter_kind w) = Inl (KeyError ''data''))
   \<and> (srv ev (calls w) (list_params k (uuid4 ev (drawn w))) = Body (Some (JObj kvs))
       \<and> map_of kvs ''result'' = Some (JStr ''success'') \<and> map_of kvs ''data'' = Some (JArr rs)
       \<and> (\<forall>r\<in>set rs. well_formed r) \<longrightarrow>
        fst (dyndns_list ev k editable filter_name filter_kind w)
          = Inr (JArr (filter (wanted editable filter_name filter_kind) rs)))
   \<and> (fst (dyndns_list ev k editable filter_name filter_kind w) = Inl e' \<longrightarrow>
        (\<exists>x. e' = ConnectionError x) \<or> (\<exists>x. e' = OtherError x) \<or> e' = TypeError
        \<or> (\<exists>x. e' = KeyError x))"
proof -
  let ?o = "srv ev (calls w) (list_params k (uuid4 ev (drawn w)))"
  let ?l = "fst (dyndns_list ev k editable filter_name filter_kind w)"
  have 1: "response_result ?o = Inl e \<longrightarrow> ?l = Inl e"
  proof
    assume a: "response_result ?o = Inl e"
    show "?l = Inl e"
    proof (cases ?o)
      case (URLError x)
      with a show ?thesis by (simp add: dyndns_list_eq response_result_def)
    next
      case (Raises x)
      with a show ?thesis by (simp add: dyndns_list_eq response_result_def)
    next
      case (Body b)
      show ?thesis
      proof (cases b)
        case None
        with a Body show ?thesis by (simp add: dyndns_list_eq response_result_def)
      next
        case (Some x)
        with a Body show ?thesis by (simp add: dyndns_list_eq list_result_response)
      qed
    qed
  qed
  have 2: "response_result ?o = Inr False \<longrightarrow> ?l = Inr JNull"
  proof
    assume a: "response_result ?o = Inr False"
    then obtain x where "?o = Body (Some x)"
      by (cases ?o) (auto simp: response_result_def split: option.splits)
    with a show "?l = Inr JNull" by (simp add: dyndns_list_eq list_result_response)
  qed
  have 3: "?o = Body (Some (JObj kvs)) \<and> map_of kvs ''result'' = Some (JStr ''success'')
           \<and> map_of kvs ''data'' = None \<longrightarrow> ?l = Inl (KeyError ''data'')"
    by (simp add: dyndns_list_eq list_result_no_data)
  have 4: "?o = Body (Some (JObj kvs)) \<and> map_of kvs ''result'' = Some (JStr ''success'')
           \<and> map_of kvs ''data'' = Some (JArr rs) \<and> (\<forall>r\<in>set rs. well_formed r) \<longrightarrow>
           ?l = Inr (JArr (filter (wanted editable filter_name filter_kind) rs))"
    by (simp add: dyndns_list_eq list_result_well_formed)
  have 5: "?l = Inl e' \<longrightarrow>
        (\<exists>x. e' = ConnectionError x) \<or> (\<exists>x. e' = OtherError x) \<or> e' = TypeError
        \<or> (\<exists>x. e' = KeyError x)"
    by (auto simp: dyndns_list_eq split: http_outcome.splits option.splits
        dest: list_result_error)
  have 6: "(\<forall>obj. x \<noteq> JObj obj) \<longrightarrow> response_result (Body (Some x)) = Inl TypeError"
    by (cases x) (simp_all add: response_result_def)
  have 7: "map_of obj ''result'' = None \<longrightarrow>
           response_result (Body (Some (JObj obj))) = Inl (KeyError ''result'')"
    "map_of obj ''result'' = Some r \<longrightarrow>
           response_result (Body (Some (JObj obj))) = Inr (r = JStr ''success'')"
    by (simp_all add: response_result_def)
  have 8: "response_result outcome = Inl (OtherError n) \<longleftrightarrow> outcome = Raises n"
    by (auto simp: response_result_def split: http_outcome.splits option.splits json.splits)
  have 9: "response_result (Body None) = Inl TypeError"
    by (simp add: response_result_def)
  have 10: "?l = Inl (OtherError n) \<longleftrightarrow> ?o = Raises n"
    by (auto simp: dyndns_list_eq split: http_outcome.splits option.splits
        dest: list_result_error)
  show ?thesis
    using 1 2 3 4 5 6 7 8 9 10
      dyndns_list_connection_error [of ev k editable filter_name filter_kind w m]
      response_result_connection_error [of outcome m]
    by (simp add: dyndns_add_eq dyndns_rem_eq)
qed

theorem api_client_failures_witness:
  "fst (dyndns_add (sample_env provider_down (Inr ''203.0.113.9'')) ''KEY'' ''host.example.com''
          ''A'' ''203.0.113.9'' [] (sample_world None)) = Inl (ConnectionError None)
   \<and> fst (dyndns_rem (sample_env provider_refuses (Inr ''203.0.113.9'')) ''KEY'' ''host.example.com''
          ''A'' (JStr ''203.0.113.5'') (sample_world None)) = Inr False
   \<and> fst (dyndns_list (sample_env provider_down (Inr ''203.0.113.9'')) ''KEY''
          (Some ''1'') (Some ''host.example.com'') (Some ''A'') (sample_world None))
       = Inl (ConnectionError None)
   \<and> fst (dyndns_list (sample_env provider_garbled (Inr ''203.0.113.9'')) ''KEY''
          (Some ''1'') (Some ''host.example.com'') (Some ''A'') (sample_world None))
       = Inl TypeError
   \<and> fst (dyndns_list (sample_env provider_refuses (Inr ''203.0.113.9'')) ''KEY''
          (Some ''1'') (Some ''host.example.com'') (Some ''A'') (sample_world None))
       = Inr JNull
   \<and> list_all well_formed [a_record ''other.example.com'' ''A'' ''203.0.113.8'' ''1'']
   \<and> filter (wanted (Some ''1'') (Some ''host.example.com'') (Some ''A''))
         [a_record ''other.example.com'' ''A'' ''203.0.113.8'' ''1''] = []
   \<and> fst (dyndns_list
            (sample_env (provider_ok [a_record ''other.example.com'' ''A'' ''203.0.113.8'' ''1''])
               (Inr ''203.0.113.9''))
            ''KEY'' (Some ''1'') (Some ''host.example.com'') (Some ''A'') (sample_world None))
       = Inr (JArr [])"
proof -
  let ?down = "sample_env provider_down (Inr ''203.0.113.9'')"
  let ?garbled = "sample_env provider_garbled (Inr ''203.0.113.9'')"
  let ?refuses = "sample_env provider_refuses (Inr ''203.0.113.9'')"
  let ?rs = "[a_record ''other.example.com'' ''A'' ''203.0.113.8'' ''1'']"
  let ?ok = "sample_env (provider_ok ?rs) (Inr ''203.0.113.9'')"
  let ?w = "sample_world None"
  have s: "srv ?down h rq = URLError None" "srv ?garbled h rq = Body None"
    "srv ?refuses h rq
       = Body (Some (JObj [(''result'', JStr ''error''), (''data'', JStr ''internal_error'')]))"
    for h rq
    by (simp_all add: sample_defs)
  have 1: "fst (dyndns_add ?down ''KEY'' ''host.example.com'' ''A'' ''203.0.113.9'' [] ?w)
           = Inl (ConnectionError None)"
    using api_client_failures [where ev = ?down and k = "''KEY''" and name = "''host.example.com''"
        and kind = "''A''" and val = "''203.0.113.9''" and comment = "[]" and w = ?w]
    by (simp add: s response_result_def)
  have 2: "fst (dyndns_rem ?refuses ''KEY'' ''host.example.com'' ''A'' (JStr ''203.0.113.5'') ?w)
           = Inr False"
    using api_client_failures [where ev = ?refuses and k = "''KEY''"
        and name = "''host.example.com''" and kind = "''A''" and v = "JStr ''203.0.113.5''"
        and w = ?w]
    by (simp add: s response_result_def)
  have 3: "fst (dyndns_list ?down ''KEY'' (Some ''1'') (Some ''host.example.com'') (Some ''A'') ?w)
           = Inl (ConnectionError None)"
    using api_client_failures [where ev = ?down and k = "''KEY''" and w = ?w and m = None
        and editable = "Some ''1''" and filter_name = "Some ''host.example.com''"
        and filter_kind = "Some ''A''"]
    by (simp add: s)
  have 4: "fst (dyndns_list ?garbled ''KEY'' (Some ''1'') (Some ''host.example.com'') (Some ''A'') ?w)
           = Inl TypeError"
    using api_client_failures [where ev = ?garbled and k = "''KEY''" and w = ?w
        and e = TypeError
        and editable = "Some ''1''" and filter_name = "Some ''host.example.com''"
        and filter_kind = "Some ''A''"]
    by (simp add: s response_result_def)
  have 5: "fst (dyndns_list ?refuses ''KEY'' (Some ''1'') (Some ''host.example.com'') (Some ''A'') ?w)
           = Inr JNull"
    using api_client_failures [where ev = ?refuses and k = "''KEY''" and w = ?w
        and editable = "Some ''1''" and filter_name = "Some ''host.example.com''"
        and filter_kind = "Some ''A''"]
    by (simp add: s response_result_def)
  have wf: "\<forall>r\<in>set ?rs. well_formed r"
    by (simp add: a_record_def well_formed_def field_def)
  have none: "filter (wanted (Some ''1'') (Some ''host.example.com'') (Some ''A'')) ?rs = []"
    by (simp add: a_record_def wanted_def field_matches_def field_def)
  have b: "srv ?ok (calls ?w) (list_params ''KEY'' (uuid4 ?ok (drawn ?w)))
           = Body (Some (JObj [(''result'', JStr ''success''), (''data'', JArr ?rs)]))"
    by (simp add: sample_env_def provider_ok_def)
  have 6: "fst (dyndns_list ?ok ''KEY'' (Some ''1'') (Some ''host.example.com'') (Some ''A'') ?w)
           = Inr (JArr [])"
    using api_client_failures [where ev = ?ok and k = "''KEY''" and w = ?w
        and editable = "Some ''1''" and filter_name = "Some ''host.example.com''"
        and filter_kind = "Some ''A''"
        and kvs = "[(''result'', JStr ''success''), (''data'', JArr ?rs)]" and rs = ?rs]
      wf none b
    by simp
  from 1 2 3 4 5 6 wf none show ?thesis by (simp add: list_all_iff)
qed

text \<open>
  C8 (the code departs from it). The cache holds 203.0.113.5, the current IP is
  203.0.113.9 in both runs and the force flag is off. The first run makes the list request
  of the Clean step and then raises \<open>TypeError\<close> at \<open>logfile.log\<close>, before the add request
  and the cache write; the cache is unchanged, so the second run decides to update again
  and makes the list request of the Clean step a second time.
\<close>

theorem two_runs:
  "fst (main_flow (sample_env (provider_ok []) (Inr ''203.0.113.9'')) (sample_params False False)
          (sample_world (Some ''203.0.113.5''))) = Inl TypeError
   \<and> calls (snd (main_flow (sample_env (provider_ok []) (Inr ''203.0.113.9''))
          (sample_params False False) (sample_world (Some ''203.0.113.5''))))
     = [list_params ''KEY'' ''uuid4:'']
   \<and> files (snd (main_flow (sample_env (provider_ok []) (Inr ''203.0.113.9''))
          (sample_params False False) (sample_world (Some ''203.0.113.5''))))
        ''dyndns-host.example.com.txt''
     = Some (''203.0.113.5'' @ [CHR 0x0A])
   \<and> fst (main_flow (sample_env (provider_ok []) (Inr ''203.0.113.9'')) (sample_params False False)
          (snd (main_flow (sample_env (provider_ok []) (Inr ''203.0.113.9''))
             (sample_params False False) (sample_world (Some ''203.0.113.5''))))) = Inl TypeError
   \<and> calls (snd (main_flow (sample_env (provider_ok []) (Inr ''203.0.113.9''))
          (sample_params False False)
          (snd (main_flow (sample_env (provider_ok []) (Inr ''203.0.113.9''))
             (sample_params False False) (sample_world (Some ''203.0.113.5''))))))
     = [list_params ''KEY'' ''uuid4:'', list_params ''KEY'' ''uuid4:i'']
   \<and> files (snd (main_flow (sample_env (provider_ok []) (Inr ''203.0.113.9''))
          (sample_params False False)
          (snd (main_flow (sample_env (provider_ok []) (Inr ''203.0.113.9''))
             (sample_params False False) (sample_world (Some ''203.0.113.5''))))))
        ''dyndns-host.example.com.txt''
     = Some (''203.0.113.5'' @ [CHR 0x0A])"
  by (simp add: sample_defs flow_defs api_defs io_defs rstrip_def isspace_def update_decision_def)

text \<open>
  C9. The nonce of an add request and of a remove request is \<open>uuid5\<close> of the host name:
  two requests for the same host name carry the same nonce, whatever the key, the type,
  the value, the comment and the state of the world, and neither draws a random UUID. The
  nonce of a list request is the next draw of \<open>uuid4\<close>, and each list request uses up one
  draw; when the draws never repeat, the nonce of the next list request differs.
\<close>

theorem nonce_policy:
  "nonce_of (last (calls (snd (dyndns_add ev k name kind val comment w))))
     = Some (JStr (uuid5_url ev name))
   \<and> nonce_of (last (calls (snd (dyndns_add ev k' name kind' val' comment' w'))))
     = nonce_of (last (calls (snd (dyndns_add ev k name kind val comment w))))
   \<and> nonce_of (last (calls (snd (dyndns_rem ev k name kind v w))))
     = Some (JStr (uuid5_url ev name))
   \<and> nonce_of (last (calls (snd (dyndns_rem ev k' name kind' v' w'))))
     = nonce_of (last (calls (snd (dyndns_rem ev k name kind v w))))
   \<and> drawn (snd (dyndns_add ev k name kind val comment w)) = drawn w
   \<and> drawn (snd (dyndns_rem ev k name kind v w)) = drawn w
   \<and> nonce_of (last (calls (snd (dyndns_list ev k editable filter_name filter_kind w))))
     = Some (JStr (uuid4 ev (drawn w)))
   \<and> drawn (snd (dyndns_list ev k editable filter_name filter_kind w)) = Suc (drawn w)
   \<and> (inj (uuid4 ev) \<longrightarrow>
        nonce_of (last (calls (snd (dyndns_list ev k' editable' filter_name' filter_kind'
                                      (snd (dyndns_list ev k editable filter_name filter_kind w))))))
        \<noteq> nonce_of (last (calls (snd (dyndns_list ev k editable filter_name filter_kind w)))))"
  by (auto simp: dyndns_add_calls dyndns_rem_calls dyndns_list_calls dyndns_list_drawn
      dyndns_add_drawn dyndns_rem_drawn nonce_of_def add_params_def rem_params_def list_params_def
      dest: injD)

theorem nonce_policy_witness:
  "inj (uuid4 (sample_env (provider_ok []) (Inr ''203.0.113.9'')))
   \<and> nonce_of (last (calls (snd (dyndns_add (sample_env (provider_ok []) (Inr ''203.0.113.9''))
         ''KEY'' ''host.example.com'' ''A'' ''203.0.113.9'' [] (sample_world None)))))
     = Some (JStr ''uuid5:host.example.com'')
   \<and> nonce_of (last (calls (snd (dyndns_add (sample_env (provider_ok []) (Inr ''203.0.113.9''))
         ''OTHER-KEY'' ''host.example.com'' ''AAAA'' ''2001:db8::1'' ''home''
         (snd (dyndns_add (sample_env (provider_ok []) (Inr ''203.0.113.9''))
            ''KEY'' ''host.example.com'' ''A'' ''203.0.113.9'' [] (sample_world None)))))))
     = Some (JStr ''uuid5:host.example.com'')
   \<and> nonce_of (last (calls (snd (dyndns_rem (sample_env (provider_ok []) (Inr ''203.0.113.9''))
         ''KEY'' ''host.example.com'' ''A'' (JStr ''203.0.113.5'') (sample_world None)))))
     = Some (JStr ''uuid5:host.example.com'')
   \<and> nonce_of (last (calls (snd (dyndns_list (sample_env (provider_ok []) (Inr ''203.0.113.9''))
         ''KEY'' None None None (sample_world None)))))
     = Some (JStr ''uuid4:'')
   \<and> nonce_of (last (calls (snd (dyndns_list (sample_env (provider_ok []) (Inr ''203.0.113.9''))
         ''KEY'' None None None
         (snd (dyndns_list (sample_env (provider_ok []) (Inr ''203.0.113.9''))
            ''KEY'' None None None (sample_world None)))))))
     \<noteq> Some (JStr ''uuid4:'')"
proof -
  let ?ev = "sample_env (provider_ok []) (Inr ''203.0.113.9'')"
  let ?w = "sample_world None"
  have i: "inj (uuid4 ?ev)"
    by (simp add: sample_env_def inj_def)
  have u: "uuid5_url ?ev ''host.example.com'' = ''uuid5:host.example.com''"
    "uuid4 ?ev 0 = ''uuid4:''" "drawn ?w = 0"
    by (simp_all add: sample_env_def sample_world_def)
  note n = nonce_policy [where ev = ?ev and k = "''KEY''" and name = "''host.example.com''"
      and kind = "''A''" and val = "''203.0.113.9''" and comment = "[]" and w = ?w
      and k' = "''OTHER-KEY''" and kind' = "''AAAA''" and val' = "''2001:db8::1''"
      and comment' = "''home''"
      and w' = "snd (dyndns_add ?ev ''KEY'' ''host.example.com'' ''A'' ''203.0.113.9'' [] ?w)"
      and v = "JStr ''203.0.113.5''" and editable = None and filter_name = None
      and filter_kind = None and editable' = None and filter_name' = None and filter_kind' = None]
  note n' = nonce_policy [where ev = ?ev and k = "''KEY''" and w = ?w and k' = "''KEY''"
      and editable = None and filter_name = None and filter_kind = None
      and editable' = None and filter_name' = None and filter_kind' = None]
  let ?w1 = "snd (dyndns_list ?ev ''KEY'' None None None ?w)"
  have 1: "nonce_of (last (calls (snd (dyndns_add ?ev ''KEY'' ''host.example.com'' ''A''
             ''203.0.113.9'' [] ?w)))) = Some (JStr ''uuid5:host.example.com'')"
    using n u by simp
  have 2: "nonce_of (last (calls (snd (dyndns_add ?ev ''OTHER-KEY'' ''host.example.com'' ''AAAA''
             ''2001:db8::1'' ''home''
             (snd (dyndns_add ?ev ''KEY'' ''host.example.com'' ''A'' ''203.0.113.9'' [] ?w))))))
           = Some (JStr ''uuid5:host.example.com'')"
    using n u by simp
  have 3: "nonce_of (last (calls (snd (dyndns_rem ?ev ''KEY'' ''host.example.com'' ''A''
             (JStr ''203.0.113.5'') ?w)))) = Some (JStr ''uuid5:host.example.com'')"
    using n u by simp
  have 4: "nonce_of (last (calls ?w1)) = Some (JStr ''uuid4:'')"
    using n' u by simp
  have "nonce_of (last (calls (snd (dyndns_list ?ev ''KEY'' None None None ?w1))))
        \<noteq> nonce_of (last (calls ?w1))"
    using n' i by blast
  with 4 have 5: "nonce_of (last (calls (snd (dyndns_list ?ev ''KEY'' None None None ?w1))))
        \<noteq> Some (JStr ''uuid4:'')"
    by simp
  from i 1 2 3 4 5 show ?thesis by blast
qed

text \<open>
  C10. The Persist step stores the IP followed by a newline, and the cache read that
  follows a successful Persist returns the IP again, for every IP string that does not
  end in whitespace (so for every one without leading or trailing whitespace). An IP
  string has no carriage return in it: the addresses that \<open>getsockname\<close> returns are
  digits and dots.
\<close>

theorem cache_round_trip:
  assumes "fst (write_ip_cache ev p ip w) = Inr ()"
    and "ip = [] \<or> \<not> isspace (last ip)"
    and "CHR 0x0D \<notin> set ip"
  shows "files (snd (write_ip_cache ev p ip w)) (ip_cachename p) = Some (ip @ [CHR 0x0A])
         \<and> fst (read_ip_cache p (snd (write_ip_cache ev p ip w))) = Inr (Some ip)"
proof -
  from assms(1) have wr: "writable ev (ip_cachename p)"
    by (simp add: write_ip_cache_def split: if_splits)
  from assms(3) have "universal_newlines (ip @ [CHR 0x0A]) = ip @ [CHR 0x0A]"
    by (intro universal_newlines_id) simp
  with wr rstrip_newline [OF assms(2)] show ?thesis
    by (simp add: write_ip_cache_def read_ip_cache_eq)
qed

theorem cache_round_trip_witness:
  "fst (write_ip_cache (sample_env (provider_ok []) (Inr ''203.0.113.9''))
          (sample_params False False) ''203.0.113.9'' (sample_world None)) = Inr ()
   \<and> \<not> isspace (last ''203.0.113.9'') \<and> \<not> isspace (hd ''203.0.113.9'')
   \<and> CHR 0x0D \<notin> set ''203.0.113.9''
   \<and> files (snd (write_ip_cache (sample_env (provider_ok []) (Inr ''203.0.113.9''))
          (sample_params False False) ''203.0.113.9'' (sample_world None)))
        ''dyndns-host.example.com.txt''
     = Some (''203.0.113.9'' @ [CHR 0x0A])
   \<and> fst (read_ip_cache (sample_params False False)
        (snd (write_ip_cache (sample_env (provider_ok []) (Inr ''203.0.113.9''))
           (sample_params False False) ''203.0.113.9'' (sample_world None))))
     = Inr (Some ''203.0.113.9'')"
proof -
  let ?ev = "sample_env (provider_ok []) (Inr ''203.0.113.9'')"
  have s: "\<not> isspace (last ''203.0.113.9'')" "\<not> isspace (hd ''203.0.113.9'')"
    by (simp_all add: isspace_def)
  have c: "CHR 0x0D \<notin> set ''203.0.113.9''" by simp
  have n: "ip_cachename (sample_params False False) = ''dyndns-host.example.com.txt''"
    by (simp add: ip_cachename_def sample_params_def)
  have ok: "fst (write_ip_cache ?ev (sample_params False False) ''203.0.113.9'' (sample_world None))
            = Inr ()"
    by (simp add: write_ip_cache_def sample_env_def)
  from s(1) have t: "''203.0.113.9'' = [] \<or> \<not> isspace (last ''203.0.113.9'')" ..
  from cache_round_trip [OF ok t c] s c n ok
  show ?thesis by simp
qed

end
